theory Spec2Isabelle
  imports Complex_Main
begin

section \<open>Python values and errors\<close>

text \<open>
  The attributes of \<^verbatim>\<open>ColumnMetadata\<close> and \<^verbatim>\<open>Metadata\<close> are dynamically typed: a setter
  receives any object and stores what the validator returns. The universe of values:
  \<^verbatim>\<open>None\<close>, \<^verbatim>\<open>int\<close>, finite \<^verbatim>\<open>float\<close> (as a rational), \<^verbatim>\<open>str\<close>, \<^verbatim>\<open>list\<close>, \<^verbatim>\<open>dict\<close> (insertion
  ordered) and a member of a \<^verbatim>\<open>(str, Enum)\<close> class, given by class name, member name and
  string value. Booleans, bytes, tuples, sets, NaN and infinities are not in the universe.
\<close>

datatype pyval =
    PNone
  | PInt int
  | PFloat rat
  | PStr string
  | PList "pyval list"
  | PDict "(pyval \<times> pyval) list"
  | PEnum string string string

text \<open>\<^verbatim>\<open>validator_collection.errors\<close>: the errors the validators raise.\<close>

datatype verr =
    EmptyValueError
  | CannotCoerceError
  | NotADictError
  | NotAnIterableError
  | NotAnIntegerError
  | MinimumValueError
  | InvalidVariableNameError
  | NotBytesIOError

text \<open>Python's built-in errors, and \<^verbatim>\<open>spss_converter/errors.py\<close>.\<close>

datatype pyerr =
    ValidationError verr
  | ValueError
  | TypeError
  | KeyError
  | IndexError
  | AttributeError
  | NameError
  | ColumnNameNotFoundError
  | InvalidDataFormatError
  | InvalidLayoutError
  | OSError
  | CodecError string

text \<open>
  The parts of the imported libraries whose result is not determined by the value's shape:
  whether \<^verbatim>\<open>ast.parse('%s = None' % s)\<close> accepts a string, what \<^verbatim>\<open>float(s)\<close> gives for a
  string, what \<^verbatim>\<open>validators.dict\<close> gives for a string (it decodes JSON), and the text
  \<^verbatim>\<open>str(x)\<close> of an object that is not a string. They are parameters of the model.
\<close>

record pylib =
  parse_target :: "string \<Rightarrow> bool"
  float_of_str :: "string \<Rightarrow> rat option"
  json_dict :: "string \<Rightarrow> verr + (pyval \<times> pyval) list"
  str_other :: "pyval \<Rightarrow> string"

text \<open>Truth value of an object, as \<^verbatim>\<open>not value\<close> tests it.\<close>

fun truthy :: "pyval \<Rightarrow> bool" where
  "truthy PNone = False"
| "truthy (PInt n) = (n \<noteq> 0)"
| "truthy (PFloat r) = (r \<noteq> 0)"
| "truthy (PStr s) = (s \<noteq> [])"
| "truthy (PList xs) = (xs \<noteq> [])"
| "truthy (PDict kvs) = (kvs \<noteq> [])"
| "truthy (PEnum c m v) = (v \<noteq> [])"

text \<open>The text of a \<^verbatim>\<open>str\<close> instance (an enum member of a str class is one).\<close>

fun str_value :: "pyval \<Rightarrow> string option" where
  "str_value (PStr s) = Some s"
| "str_value (PEnum c m v) = Some v"
| "str_value _ = None"

fun num_value :: "pyval \<Rightarrow> rat option" where
  "num_value (PInt n) = Some (of_int n)"
| "num_value (PFloat r) = Some r"
| "num_value _ = None"

text \<open>
  \<^verbatim>\<open>==\<close> on scalars: numbers by value, strings by text, otherwise identity of shape.
\<close>

definition py_eq :: "pyval \<Rightarrow> pyval \<Rightarrow> bool" where
  "py_eq a b =
     (case (num_value a, num_value b) of
        (Some x, Some y) \<Rightarrow> x = y
      | _ \<Rightarrow> (case (str_value a, str_value b) of
                (Some s, Some t) \<Rightarrow> s = t
              | _ \<Rightarrow> a = b))"

text \<open>\<^verbatim>\<open>str.lower()\<close>, on ASCII letters.\<close>

definition lower_char :: "char \<Rightarrow> char" where
  "lower_char c =
     (if (65::nat) \<le> of_char c \<and> (of_char c :: nat) \<le> 90
      then char_of ((of_char c :: nat) + 32) else c)"

definition lower :: "string \<Rightarrow> string" where
  "lower s = map lower_char s"

subsection \<open>Dictionaries\<close>

text \<open>
  A \<^verbatim>\<open>dict\<close> is an association list in insertion order. \<^verbatim>\<open>d.get(k, default)\<close>,
  \<^verbatim>\<open>d[k] = v\<close> (an existing key keeps its position), \<^verbatim>\<open>k in d\<close>.
\<close>

fun dict_get :: "(pyval \<times> 'v) list \<Rightarrow> pyval \<Rightarrow> 'v \<Rightarrow> 'v" where
  "dict_get [] k d = d"
| "dict_get ((k', v) # kvs) k d = (if py_eq k' k then v else dict_get kvs k d)"

fun dict_set :: "(pyval \<times> 'v) list \<Rightarrow> pyval \<Rightarrow> 'v \<Rightarrow> (pyval \<times> 'v) list" where
  "dict_set [] k v = [(k, v)]"
| "dict_set ((k', v') # kvs) k v =
     (if py_eq k' k then (k', v) # kvs else (k', v') # dict_set kvs k v)"

definition dict_has :: "(pyval \<times> 'v) list \<Rightarrow> pyval \<Rightarrow> bool" where
  "dict_has kvs k = (\<exists>kv \<in> set kvs. py_eq (fst kv) k)"

text \<open>
  A mapping with string keys, as \<^verbatim>\<open>from_dict\<close> receives it, and \<^verbatim>\<open>as_dict.pop(key, default)\<close>:
  the value and the dictionary without the key.
\<close>

type_synonym strdict = "(string \<times> pyval) list"

definition pop :: "string \<Rightarrow> pyval \<Rightarrow> strdict \<Rightarrow> pyval \<times> strdict" where
  "pop k d as_dict =
     (case map_of as_dict k of
        None \<Rightarrow> (d, as_dict)
      | Some v \<Rightarrow> (v, filter (\<lambda>kv. fst kv \<noteq> k) as_dict))"

section \<open>The validators of validator-collection\<close>

text \<open>
  \<^verbatim>\<open>validators.string(value, allow_empty)\<close>: an empty value is an error or \<^verbatim>\<open>None\<close>; a value
  that is not a \<^verbatim>\<open>str\<close> is not coerced.
\<close>

definition validators_string :: "pyval \<Rightarrow> bool \<Rightarrow> verr + pyval" where
  "validators_string value allow_empty =
     (if \<not> truthy value then (if allow_empty then Inr PNone else Inl EmptyValueError)
      else if str_value value = None then Inl CannotCoerceError
      else Inr value)"

text \<open>
  \<^verbatim>\<open>validators.variable_name(value, allow_empty)\<close>: the value formatted into
  \<^verbatim>\<open>'%s = None'\<close> must parse. For a number, or a list or dict display of literals, it does
  not; the text of a string is given to the parser. \<^verbatim>\<open>'%s'\<close> formats an enum member as
  \<^verbatim>\<open>Class.MEMBER\<close>.
\<close>

definition validators_variable_name :: "pylib \<Rightarrow> pyval \<Rightarrow> bool \<Rightarrow> verr + pyval" where
  "validators_variable_name L value allow_empty =
     (if \<not> truthy value then (if allow_empty then Inr PNone else Inl EmptyValueError)
      else (case value of
              PStr s \<Rightarrow> if parse_target L s then Inr value else Inl InvalidVariableNameError
            | PEnum c m v \<Rightarrow>
                if parse_target L (c @ ''.'' @ m) then Inr value else Inl InvalidVariableNameError
            | _ \<Rightarrow> Inl InvalidVariableNameError))"

text \<open>
  \<^verbatim>\<open>validators.numeric(value, allow_empty, minimum)\<close>: \<^verbatim>\<open>None\<close> is the only empty value; a
  string is converted by \<^verbatim>\<open>float\<close>; then the minimum is checked.
\<close>

definition check_minimum :: "rat option \<Rightarrow> pyval \<Rightarrow> verr + pyval" where
  "check_minimum minimum value =
     (case (minimum, num_value value) of
        (Some lo, Some x) \<Rightarrow> if x < lo then Inl MinimumValueError else Inr value
      | _ \<Rightarrow> Inr value)"

definition validators_numeric :: "pylib \<Rightarrow> pyval \<Rightarrow> bool \<Rightarrow> rat option \<Rightarrow> verr + pyval" where
  "validators_numeric L value allow_empty minimum =
     (case value of
        PNone \<Rightarrow> if allow_empty then Inr PNone else Inl EmptyValueError
      | PInt n \<Rightarrow> check_minimum minimum value
      | PFloat r \<Rightarrow> check_minimum minimum value
      | PStr s \<Rightarrow> (case float_of_str L s of
                     None \<Rightarrow> Inl CannotCoerceError
                   | Some r \<Rightarrow> check_minimum minimum (PFloat r))
      | PEnum c m v \<Rightarrow> (case float_of_str L v of
                     None \<Rightarrow> Inl CannotCoerceError
                   | Some r \<Rightarrow> check_minimum minimum (PFloat r))
      | _ \<Rightarrow> Inl CannotCoerceError)"

text \<open>
  \<^verbatim>\<open>validators.integer(value, allow_empty, coerce_value, minimum)\<close>: the numeric value; a
  float with an integral value becomes that integer, another float is rounded up when
  \<^verbatim>\<open>coerce_value\<close> is set and is an error otherwise.
\<close>

definition validators_integer ::
  "pylib \<Rightarrow> pyval \<Rightarrow> bool \<Rightarrow> bool \<Rightarrow> rat option \<Rightarrow> verr + pyval" where
  "validators_integer L value allow_empty coerce_value minimum =
     (case validators_numeric L value allow_empty minimum of
        Inl e \<Rightarrow> Inl e
      | Inr (PFloat r) \<Rightarrow>
          if of_int \<lfloor>r\<rfloor> = r then Inr (PInt \<lfloor>r\<rfloor>)
          else if coerce_value then Inr (PInt \<lceil>r\<rceil>)
          else Inl NotAnIntegerError
      | Inr v \<Rightarrow> Inr v)"

text \<open>\<^verbatim>\<open>validators.dict(value, allow_empty)\<close>: a string is decoded as JSON.\<close>

definition validators_dict :: "pylib \<Rightarrow> pyval \<Rightarrow> bool \<Rightarrow> verr + pyval" where
  "validators_dict L value allow_empty =
     (if \<not> truthy value then (if allow_empty then Inr PNone else Inl EmptyValueError)
      else (case value of
              PDict kvs \<Rightarrow> Inr value
            | PStr s \<Rightarrow> map_sum id PDict (json_dict L s)
            | PEnum c m v \<Rightarrow> map_sum id PDict (json_dict L v)
            | _ \<Rightarrow> Inl NotADictError))"

text \<open>
  \<^verbatim>\<open>validators.iterable(value, allow_empty)\<close>: \<^verbatim>\<open>None\<close> is returned as it is; \<^verbatim>\<open>str\<close> is
  a forbidden literal; a number is not iterable.
\<close>

definition validators_iterable :: "pyval \<Rightarrow> bool \<Rightarrow> verr + pyval" where
  "validators_iterable value allow_empty =
     (if \<not> truthy value \<and> \<not> allow_empty then Inl EmptyValueError
      else (case value of
              PNone \<Rightarrow> Inr PNone
            | PList xs \<Rightarrow> Inr value
            | PDict kvs \<Rightarrow> Inr value
            | _ \<Rightarrow> Inl NotAnIterableError))"

text \<open>\<^verbatim>\<open>checkers.is_string\<close>, \<^verbatim>\<open>checkers.is_numeric\<close>, \<^verbatim>\<open>checkers.is_iterable\<close>.\<close>

definition is_string :: "pyval \<Rightarrow> bool" where
  "is_string value = (str_value value \<noteq> None)"

definition is_numeric :: "pylib \<Rightarrow> pyval \<Rightarrow> bool" where
  "is_numeric L value = (case validators_numeric L value False None of Inl e \<Rightarrow> False | Inr v \<Rightarrow> True)"

definition is_iterable :: "pyval \<Rightarrow> bool" where
  "is_iterable value =
     (value \<noteq> PNone \<and> (case validators_iterable value True of Inl e \<Rightarrow> False | Inr v \<Rightarrow> True))"

text \<open>The items a \<^verbatim>\<open>for\<close> loop gets from an object: a dict gives its keys.\<close>

fun py_iter :: "pyval \<Rightarrow> pyerr + pyval list" where
  "py_iter (PList xs) = Inr xs"
| "py_iter (PDict kvs) = Inr (map fst kvs)"
| "py_iter (PStr s) = Inr (map (\<lambda>c. PStr [c]) s)"
| "py_iter (PEnum c m v) = Inr (map (\<lambda>c. PStr [c]) v)"
| "py_iter _ = Inl TypeError"

text \<open>Running a fallible function over a list, stopping at the first error.\<close>

fun map_err :: "('a \<Rightarrow> 'e + 'b) \<Rightarrow> 'a list \<Rightarrow> 'e + 'b list" where
  "map_err f [] = Inr []"
| "map_err f (x # xs) =
     (case f x of
        Inl e \<Rightarrow> Inl e
      | Inr y \<Rightarrow> (case map_err f xs of Inl e \<Rightarrow> Inl e | Inr ys \<Rightarrow> Inr (y # ys)))"

definition lift :: "verr + 'a \<Rightarrow> pyerr + 'a" where
  "lift r = (case r of Inl e \<Rightarrow> Inl (ValidationError e) | Inr v \<Rightarrow> Inr v)"

text \<open>Sequencing: the rest runs only when the first part did not raise.\<close>

fun and_then :: "'e + 'a \<Rightarrow> ('a \<Rightarrow> 'e + 'b) \<Rightarrow> 'e + 'b" where
  "and_then (Inl e) f = Inl e"
| "and_then (Inr x) f = f x"

text \<open>A list or dict cannot be a dictionary key; \<^verbatim>\<open>x in xs\<close> and \<^verbatim>\<open>xs.index(x)\<close> on a list.\<close>

fun hashable :: "pyval \<Rightarrow> bool" where
  "hashable (PList xs) = False"
| "hashable (PDict kvs) = False"
| "hashable _ = True"

definition list_has :: "pyval list \<Rightarrow> pyval \<Rightarrow> bool" where
  "list_has xs x = (\<exists>y \<in> set xs. py_eq y x)"

fun index_of :: "pyval list \<Rightarrow> pyval \<Rightarrow> nat" where
  "index_of [] x = 0"
| "index_of (y # ys) x = (if py_eq y x then 0 else Suc (index_of ys x))"

text \<open>\<^verbatim>\<open>str(x)\<close>, \<^verbatim>\<open>s.split(newline)\<close> and \<^verbatim>\<open>newline.join(items)\<close>.\<close>

definition py_str :: "pylib \<Rightarrow> pyval \<Rightarrow> string" where
  "py_str L x =
     (case x of PStr s \<Rightarrow> s | PEnum c m v \<Rightarrow> c @ ''.'' @ m | _ \<Rightarrow> str_other L x)"

fun split_on :: "char \<Rightarrow> string \<Rightarrow> string list" where
  "split_on sep [] = [[]]"
| "split_on sep (c # cs) =
     (if c = sep then [] # split_on sep cs
      else (case split_on sep cs of
              [] \<Rightarrow> [[c]]
            | w # ws \<Rightarrow> (c # w) # ws))"

fun join_on :: "string \<Rightarrow> string list \<Rightarrow> string" where
  "join_on sep [] = []"
| "join_on sep [w] = w"
| "join_on sep (w # ws) = w @ sep @ join_on sep ws"

definition newline :: char where
  "newline = CHR 0x0A"

section \<open>ColumnMetadata\<close>

record ColumnMetadata =
  name :: pyval
  label :: pyval
  value_metadata :: pyval
  missing_range_metadata :: pyval
  missing_value_metadata :: pyval
  alignment :: pyval
  measure :: pyval
  display_width :: pyval
  storage_width :: pyval

text \<open>The two enumerations, and the state \<^verbatim>\<open>__init__\<close> leaves without keyword arguments.\<close>

definition VariableAlignmentEnum_values :: "string list" where
  "VariableAlignmentEnum_values = [''unknown'', ''left'', ''center'', ''right'']"

definition VariableMeasureEnum_values :: "string list" where
  "VariableMeasureEnum_values = [''unknown'', ''nominal'', ''ordinal'', ''scale'']"

definition ColumnMetadata_init :: ColumnMetadata where
  "ColumnMetadata_init =
     \<lparr> name = PNone, label = PNone, value_metadata = PNone, missing_range_metadata = PNone,
       missing_value_metadata = PNone,
       alignment = PEnum ''VariableAlignmentEnum'' ''UNKNOWN'' ''unknown'',
       measure = PEnum ''VariableMeasureEnum'' ''UNKNOWN'' ''unknown'',
       display_width = PNone, storage_width = PNone \<rparr>"

subsection \<open>The setters\<close>

definition set_name :: "pylib \<Rightarrow> pyval \<Rightarrow> ColumnMetadata \<Rightarrow> pyerr + ColumnMetadata" where
  "set_name L value self =
     (case validators_variable_name L value True of
        Inl e \<Rightarrow> Inl (ValidationError e)
      | Inr v \<Rightarrow> Inr (self\<lparr>name := v\<rparr>))"

definition set_label :: "pyval \<Rightarrow> ColumnMetadata \<Rightarrow> pyerr + ColumnMetadata" where
  "set_label value self =
     (case validators_string value True of
        Inl e \<Rightarrow> Inl (ValidationError e)
      | Inr v \<Rightarrow> Inr (self\<lparr>label := v\<rparr>))"

text \<open>
  \<^verbatim>\<open>alignment\<close> and \<^verbatim>\<open>measure\<close>: a non-empty string, lower-cased, that must be one of the
  enumeration's values; the lower-cased string is what is stored.
\<close>

definition enum_setter_value :: "string list \<Rightarrow> pyval \<Rightarrow> pyerr + pyval" where
  "enum_setter_value members value =
     (case validators_string value False of
        Inl e \<Rightarrow> Inl (ValidationError e)
      | Inr v \<Rightarrow>
          (case str_value v of
             None \<Rightarrow> Inl AttributeError
           | Some s \<Rightarrow> if lower s \<in> set members then Inr (PStr (lower s)) else Inl ValueError))"

definition set_alignment :: "pyval \<Rightarrow> ColumnMetadata \<Rightarrow> pyerr + ColumnMetadata" where
  "set_alignment value self =
     (case enum_setter_value VariableAlignmentEnum_values value of
        Inl e \<Rightarrow> Inl e
      | Inr v \<Rightarrow> Inr (self\<lparr>alignment := v\<rparr>))"

definition set_measure :: "pyval \<Rightarrow> ColumnMetadata \<Rightarrow> pyerr + ColumnMetadata" where
  "set_measure value self =
     (case enum_setter_value VariableMeasureEnum_values value of
        Inl e \<Rightarrow> Inl e
      | Inr v \<Rightarrow> Inr (self\<lparr>measure := v\<rparr>))"

definition set_display_width :: "pylib \<Rightarrow> pyval \<Rightarrow> ColumnMetadata \<Rightarrow> pyerr + ColumnMetadata" where
  "set_display_width L value self =
     (case validators_integer L value False True (Some 0) of
        Inl e \<Rightarrow> Inl (ValidationError e)
      | Inr v \<Rightarrow> Inr (self\<lparr>display_width := v\<rparr>))"

definition set_storage_width :: "pylib \<Rightarrow> pyval \<Rightarrow> ColumnMetadata \<Rightarrow> pyerr + ColumnMetadata" where
  "set_storage_width L value self =
     (case validators_integer L value False True (Some 0) of
        Inl e \<Rightarrow> Inl (ValidationError e)
      | Inr v \<Rightarrow> Inr (self\<lparr>storage_width := v\<rparr>))"

text \<open>
  \<^verbatim>\<open>value_metadata\<close>: an empty value is stored as \<^verbatim>\<open>None\<close>; otherwise every label of the
  dict goes through \<^verbatim>\<open>validators.string(..., allow_empty = True)\<close>.
\<close>

definition validate_value_label :: "pyval \<times> pyval \<Rightarrow> verr + pyval \<times> pyval" where
  "validate_value_label kv =
     (case validators_string (snd kv) True of Inl e \<Rightarrow> Inl e | Inr v \<Rightarrow> Inr (fst kv, v))"

definition set_value_metadata :: "pylib \<Rightarrow> pyval \<Rightarrow> ColumnMetadata \<Rightarrow> pyerr + ColumnMetadata" where
  "set_value_metadata L value self =
     (case validators_dict L value True of
        Inl e \<Rightarrow> Inl (ValidationError e)
      | Inr (PDict kvs) \<Rightarrow>
          (if kvs = [] then Inr (self\<lparr>value_metadata := PNone\<rparr>)
           else (case map_err validate_value_label kvs of
                   Inl e \<Rightarrow> Inl (ValidationError e)
                 | Inr kvs' \<Rightarrow> Inr (self\<lparr>value_metadata := PDict kvs'\<rparr>)))
      | Inr v \<Rightarrow> Inr (self\<lparr>value_metadata := PNone\<rparr>))"

text \<open>
  \<^verbatim>\<open>missing_range_metadata\<close>: every item must be a non-empty dict (all items are checked
  first, by the list comprehension); then each needs the keys \<^verbatim>\<open>'high'\<close> and \<^verbatim>\<open>'low'\<close>,
  whose values go through \<^verbatim>\<open>validators.numeric\<close>.
\<close>

definition range_as_dict :: "pylib \<Rightarrow> pyval \<Rightarrow> pyerr + (pyval \<times> pyval) list" where
  "range_as_dict L x =
     (case validators_dict L x False of
        Inl e \<Rightarrow> Inl (ValidationError e)
      | Inr (PDict kvs) \<Rightarrow> Inr kvs
      | Inr v \<Rightarrow> Inl TypeError)"

definition validated_range :: "pylib \<Rightarrow> (pyval \<times> pyval) list \<Rightarrow> pyerr + pyval" where
  "validated_range L rng =
     (if \<not> dict_has rng (PStr ''high'') \<or> \<not> dict_has rng (PStr ''low'') then Inl ValueError
      else (case validators_numeric L (dict_get rng (PStr ''high'') PNone) False None of
              Inl e \<Rightarrow> Inl (ValidationError e)
            | Inr hi \<Rightarrow>
                (case validators_numeric L (dict_get rng (PStr ''low'') PNone) False None of
                   Inl e \<Rightarrow> Inl (ValidationError e)
                 | Inr lo \<Rightarrow> Inr (PDict [(PStr ''high'', hi), (PStr ''low'', lo)]))))"

definition set_missing_range_metadata ::
  "pylib \<Rightarrow> pyval \<Rightarrow> ColumnMetadata \<Rightarrow> pyerr + ColumnMetadata" where
  "set_missing_range_metadata L value self =
     (case validators_iterable value True of
        Inl e \<Rightarrow> Inl (ValidationError e)
      | Inr v \<Rightarrow>
          (if \<not> truthy v then Inr (self\<lparr>missing_range_metadata := PNone\<rparr>)
           else (case py_iter v of
                   Inl e \<Rightarrow> Inl e
                 | Inr items \<Rightarrow>
                     (case map_err (range_as_dict L) items of
                        Inl e \<Rightarrow> Inl e
                      | Inr ranges \<Rightarrow>
                          (case map_err (validated_range L) ranges of
                             Inl e \<Rightarrow> Inl e
                           | Inr validated_ranges \<Rightarrow>
                               Inr (self\<lparr>missing_range_metadata := PList validated_ranges\<rparr>))))))"

text \<open>
  \<^verbatim>\<open>missing_value_metadata\<close>: a false value is stored as \<^verbatim>\<open>None\<close>; a string or a number
  is wrapped in a list; every item must pass \<^verbatim>\<open>validators.string(item, allow_empty =
  False)\<close>. When that raises, the handler evaluates \<^verbatim>\<open>validators.int\<close>: the module
  \<^verbatim>\<open>validator_collection.validators\<close> defines \<^verbatim>\<open>integer\<close> and no \<^verbatim>\<open>int\<close>, so the
  attribute lookup raises \<^verbatim>\<open>AttributeError\<close>.
\<close>

definition validated_item :: "pyval \<Rightarrow> pyerr + pyval" where
  "validated_item item =
     (case validators_string item False of
        Inl e \<Rightarrow> Inl AttributeError
      | Inr v \<Rightarrow> Inr v)"

definition set_missing_value_metadata ::
  "pylib \<Rightarrow> pyval \<Rightarrow> ColumnMetadata \<Rightarrow> pyerr + ColumnMetadata" where
  "set_missing_value_metadata L value self =
     (if \<not> truthy value then Inr (self\<lparr>missing_value_metadata := PNone\<rparr>)
      else (case (if is_string value then Inr [value]
                  else if is_numeric L value then Inr [value]
                  else py_iter value) of
              Inl e \<Rightarrow> Inl e
            | Inr items \<Rightarrow>
                (case map_err validated_item items of
                   Inl e \<Rightarrow> Inl e
                 | Inr validated_values \<Rightarrow>
                     Inr (self\<lparr>missing_value_metadata := PList validated_values\<rparr>))))"

subsection \<open>from\_dict and to\_dict\<close>

text \<open>
  One line of \<^verbatim>\<open>from_dict\<close>: \<^verbatim>\<open>instance.f = as_dict.pop('f', instance.f)\<close>. The pop
  happens first and changes the caller's dictionary; then the setter may raise. The state
  is the result so far together with the dictionary; after an error nothing more runs.
\<close>

definition pop_set ::
  "string \<Rightarrow> (ColumnMetadata \<Rightarrow> pyval) \<Rightarrow> (pyval \<Rightarrow> ColumnMetadata \<Rightarrow> pyerr + ColumnMetadata) \<Rightarrow>
   (pyerr + ColumnMetadata) \<times> strdict \<Rightarrow> (pyerr + ColumnMetadata) \<times> strdict" where
  "pop_set key getter setter st =
     (case fst st of
        Inl e \<Rightarrow> st
      | Inr instance \<Rightarrow>
          (let (v, as_dict) = pop key (getter instance) (snd st) in (setter v instance, as_dict)))"

definition from_dict :: "pylib \<Rightarrow> strdict \<Rightarrow> (pyerr + ColumnMetadata) \<times> strdict" where
  "from_dict L as_dict =
     pop_set ''missing_value_metadata'' missing_value_metadata (set_missing_value_metadata L)
    (pop_set ''missing_range_metadata'' missing_range_metadata (set_missing_range_metadata L)
    (pop_set ''value_metadata'' value_metadata (set_value_metadata L)
    (pop_set ''storage_width'' storage_width (set_storage_width L)
    (pop_set ''display_width'' display_width (set_display_width L)
    (pop_set ''measure'' measure set_measure
    (pop_set ''alignment'' alignment set_alignment
    (pop_set ''label'' label set_label
    (pop_set ''name'' name (set_name L)
       (Inr ColumnMetadata_init, as_dict)))))))))"

definition to_dict :: "ColumnMetadata \<Rightarrow> strdict" where
  "to_dict self =
     [(''name'', name self),
      (''label'', label self),
      (''alignment'', alignment self),
      (''measure'', measure self),
      (''display_width'', display_width self),
      (''storage_width'', storage_width self),
      (''value_metadata'', value_metadata self),
      (''missing_range_metadata'', missing_range_metadata self),
      (''missing_value_metadata'', missing_value_metadata self)]"

definition recognized_keys :: "string list" where
  "recognized_keys =
     [''name'', ''label'', ''alignment'', ''measure'', ''display_width'', ''storage_width'',
      ''value_metadata'', ''missing_range_metadata'', ''missing_value_metadata'']"

text \<open>
  The nine lines of \<^verbatim>\<open>from_dict\<close> in their order, each with its key, the attribute that
  gives the default and the setter; and the state after running a list of lines from a
  given state. Running the first \<open>n\<close> lines gives the state in which line \<open>n + 1\<close> starts.
\<close>

type_synonym step =
  "string \<times> (ColumnMetadata \<Rightarrow> pyval) \<times> (pyval \<Rightarrow> ColumnMetadata \<Rightarrow> pyerr + ColumnMetadata)"

definition from_dict_steps :: "pylib \<Rightarrow> step list" where
  "from_dict_steps L =
     [(''name'', name, set_name L),
      (''label'', label, set_label),
      (''alignment'', alignment, set_alignment),
      (''measure'', measure, set_measure),
      (''display_width'', display_width, set_display_width L),
      (''storage_width'', storage_width, set_storage_width L),
      (''value_metadata'', value_metadata, set_value_metadata L),
      (''missing_range_metadata'', missing_range_metadata, set_missing_range_metadata L),
      (''missing_value_metadata'', missing_value_metadata, set_missing_value_metadata L)]"

fun run_steps ::
  "step list \<Rightarrow> (pyerr + ColumnMetadata) \<times> strdict \<Rightarrow> (pyerr + ColumnMetadata) \<times> strdict" where
  "run_steps [] st = st"
| "run_steps ((key, getter, setter) # rest) st = run_steps rest (pop_set key getter setter st)"

section \<open>The native metadata container\<close>

text \<open>
  \<^verbatim>\<open>pyreadstat\<close>'s \<^verbatim>\<open>metadata_container\<close>, with the attributes this package reads or writes.
  The scalar attributes carry the prefix \<^verbatim>\<open>mc_\<close> here. \<^verbatim>\<open>mc_rows\<close> is the attribute
  \<^verbatim>\<open>rows\<close>, which the class does not define: \<^verbatim>\<open>None\<close> of the option type says that the
  object has no such attribute. \<^verbatim>\<open>metadata_container()\<close> gives empty lists and
  dictionaries, an empty list of notes and \<^verbatim>\<open>None\<close> elsewhere.
\<close>

record metadata_container =
  column_names :: "pyval list"
  column_labels :: "pyval list"
  column_names_to_labels :: "(pyval \<times> pyval) list"
  variable_alignment :: "(pyval \<times> pyval) list"
  variable_measure :: "(pyval \<times> pyval) list"
  variable_display_width :: "(pyval \<times> pyval) list"
  variable_storage_width :: "(pyval \<times> pyval) list"
  variable_value_labels :: "(pyval \<times> pyval) list"
  value_labels :: "(pyval \<times> pyval) list"
  variable_to_label :: "(pyval \<times> pyval) list"
  missing_ranges :: "(pyval \<times> pyval) list"
  missing_user_values :: "(pyval \<times> pyval) list"
  mc_table_name :: pyval
  mc_file_label :: pyval
  mc_file_encoding :: pyval
  mc_notes :: pyval
  number_rows :: pyval
  mc_rows :: "pyval option"

definition metadata_container_init :: metadata_container where
  "metadata_container_init =
     \<lparr> column_names = [], column_labels = [], column_names_to_labels = [],
       variable_alignment = [], variable_measure = [], variable_display_width = [],
       variable_storage_width = [], variable_value_labels = [], value_labels = [],
       variable_to_label = [], missing_ranges = [], missing_user_values = [],
       mc_table_name = PNone, mc_file_label = PNone, mc_file_encoding = PNone,
       mc_notes = PList [], number_rows = PNone, mc_rows = None \<rparr>"

subsection \<open>ColumnMetadata.from\_pyreadstat\_metadata\<close>

text \<open>\<^verbatim>\<open>{'low': x.get('lo'), 'high': x.get('hi')}\<close>: only a dict has \<^verbatim>\<open>get\<close>.\<close>

definition from_native_range :: "pyval \<Rightarrow> pyerr + pyval" where
  "from_native_range x =
     (case x of
        PDict kvs \<Rightarrow> Inr (PDict [(PStr ''low'', dict_get kvs (PStr ''lo'') PNone),
                                 (PStr ''high'', dict_get kvs (PStr ''hi'') PNone)])
      | _ \<Rightarrow> Inl AttributeError)"

definition from_pyreadstat_metadata ::
  "pylib \<Rightarrow> pyval \<Rightarrow> metadata_container \<Rightarrow> pyerr + ColumnMetadata" where
  "from_pyreadstat_metadata L name0 as_metadata =
     and_then (lift (validators_variable_name L name0 False)) (\<lambda>nm.
       if \<not> list_has (column_names as_metadata) nm then Inl ColumnNameNotFoundError
       else
     and_then (set_name L nm ColumnMetadata_init) (\<lambda>i0.
     and_then (set_label (dict_get (column_names_to_labels as_metadata) nm PNone) i0) (\<lambda>i1.
     and_then (set_alignment (dict_get (variable_alignment as_metadata) nm (alignment i1)) i1) (\<lambda>i2.
     and_then (set_measure (dict_get (variable_measure as_metadata) nm (measure i2)) i2) (\<lambda>i3.
     and_then (set_display_width L
                 (dict_get (variable_display_width as_metadata) nm (display_width i3)) i3) (\<lambda>i4.
     and_then (set_storage_width L
                 (dict_get (variable_storage_width as_metadata) nm (storage_width i4)) i4) (\<lambda>i5.
     and_then (set_value_metadata L
                 (dict_get (variable_value_labels as_metadata) nm (value_metadata i5)) i5) (\<lambda>i6.
     and_then (py_iter (dict_get (missing_ranges as_metadata) nm (PList []))) (\<lambda>rs.
     and_then (map_err from_native_range rs) (\<lambda>rs'.
     and_then (set_missing_range_metadata L (PList rs') i6) (\<lambda>i7.
       set_missing_value_metadata L
         (dict_get (missing_user_values as_metadata) nm PNone) i7)))))))))))"

subsection \<open>ColumnMetadata.add\_to\_pyreadstat\<close>

definition to_native_range :: "pyval \<Rightarrow> pyerr + pyval" where
  "to_native_range x =
     (case x of
        PDict kvs \<Rightarrow> Inr (PDict [(PStr ''lo'', dict_get kvs (PStr ''low'') PNone),
                                 (PStr ''hi'', dict_get kvs (PStr ''high'') PNone)])
      | _ \<Rightarrow> Inl AttributeError)"

text \<open>
  The statements in the order of the source, in five groups; the first statement that
  raises ends the call. (The container is changed in place; the model gives no container
  back after an error.) First the label, alignment, measure and widths, stored under the
  name; \<^verbatim>\<open>str\<close> is applied to alignment and measure.
\<close>

definition add_formats :: "pylib \<Rightarrow> ColumnMetadata \<Rightarrow> metadata_container \<Rightarrow> metadata_container" where
  "add_formats L self p =
     p\<lparr> column_names_to_labels := dict_set (column_names_to_labels p) (name self) (label self),
       variable_alignment :=
         dict_set (variable_alignment p) (name self) (PStr (py_str L (alignment self))),
       variable_measure :=
         dict_set (variable_measure p) (name self) (PStr (py_str L (measure self))),
       variable_display_width :=
         dict_set (variable_display_width p) (name self) (display_width self),
       variable_storage_width :=
         dict_set (variable_storage_width p) (name self) (storage_width self) \<rparr>"

text \<open>
  The value labels, when there are any, under the name and under the label; then
  \<^verbatim>\<open>variable_to_label\<close>.
\<close>

definition add_value_labels :: "ColumnMetadata \<Rightarrow> metadata_container \<Rightarrow> pyerr + metadata_container" where
  "add_value_labels self p =
     and_then (if value_metadata self \<noteq> PNone
               then (if \<not> hashable (label self) then Inl TypeError
                     else Inr (p\<lparr> variable_value_labels :=
                                     dict_set (variable_value_labels p) (name self)
                                       (value_metadata self),
                                   value_labels :=
                                     dict_set (value_labels p) (label self)
                                       (value_metadata self) \<rparr>))
               else Inr p) (\<lambda>p'.
       Inr (p'\<lparr> variable_to_label :=
                    dict_set (variable_to_label p') (name self) (label self) \<rparr>))"

definition add_missing_ranges :: "ColumnMetadata \<Rightarrow> metadata_container \<Rightarrow> pyerr + metadata_container" where
  "add_missing_ranges self p =
     (if truthy (missing_range_metadata self)
      then and_then (py_iter (missing_range_metadata self)) (\<lambda>xs.
           and_then (map_err to_native_range xs) (\<lambda>rs.
             Inr (p\<lparr> missing_ranges := dict_set (missing_ranges p) (name self) (PList rs) \<rparr>)))
      else Inr p)"

definition add_missing_user_values ::
  "ColumnMetadata \<Rightarrow> metadata_container \<Rightarrow> pyerr + metadata_container" where
  "add_missing_user_values self p =
     (if truthy (missing_value_metadata self)
      then and_then (py_iter (missing_value_metadata self)) (\<lambda>xs.
             Inr (p\<lparr> missing_user_values :=
                        dict_set (missing_user_values p) (name self) (PList xs) \<rparr>))
      else Inr p)"

text \<open>The name is appended to the column names, or written over its first occurrence.\<close>

definition add_column_name :: "ColumnMetadata \<Rightarrow> metadata_container \<Rightarrow> pyerr + metadata_container" where
  "add_column_name self p =
     (if \<not> list_has (column_names p) (name self)
      then Inr (p\<lparr> column_names := column_names p @ [name self],
                     column_labels := column_labels p @ [label self] \<rparr>)
      else (let index = index_of (column_names p) (name self)
            in if index < length (column_labels p)
               then Inr (p\<lparr> column_names := (column_names p)[index := name self],
                              column_labels := (column_labels p)[index := label self] \<rparr>)
               else Inl IndexError))"

definition add_to_pyreadstat ::
  "pylib \<Rightarrow> ColumnMetadata \<Rightarrow> metadata_container \<Rightarrow> pyerr + metadata_container" where
  "add_to_pyreadstat L self p =
     (if \<not> hashable (name self) then Inl TypeError
      else
     and_then (add_value_labels self (add_formats L self p)) (\<lambda>p1.
     and_then (add_missing_ranges self p1) (\<lambda>p2.
     and_then (add_missing_user_values self p2) (\<lambda>p3.
       add_column_name self p3))))"

section \<open>Metadata\<close>

text \<open>
  \<^verbatim>\<open>column_metadata\<close> holds \<^verbatim>\<open>None\<close> or a dict from names to \<^verbatim>\<open>ColumnMetadata\<close>
  instances. The attribute \<^verbatim>\<open>notes\<close> is the field \<^verbatim>\<open>md_notes\<close>.
\<close>

record Metadata =
  column_metadata :: "(pyval \<times> ColumnMetadata) list option"
  md_notes :: pyval
  file_encoding :: pyval
  rows :: pyval
  table_name :: pyval
  file_label :: pyval

definition Metadata_init :: Metadata where
  "Metadata_init =
     \<lparr> column_metadata = None, md_notes = PNone, file_encoding = PNone, rows = PInt 0,
       table_name = PNone, file_label = PNone \<rparr>"

text \<open>
  What the \<^verbatim>\<open>column_metadata\<close> setter can be given: a dict whose values are
  \<^verbatim>\<open>ColumnMetadata\<close> instances or other objects, or an object that is not such a dict.
\<close>

datatype column_value = Instance ColumnMetadata | Plain pyval

datatype columns_arg = Columns "(pyval \<times> column_value) list" | NoColumns pyval

subsection \<open>The setters\<close>

text \<open>
  The loop of the \<^verbatim>\<open>column_metadata\<close> setter. For a value that is not a
  \<^verbatim>\<open>ColumnMetadata\<close> the source evaluates \<^verbatim>\<open>ColumnMetadata.from_dict(result[key])\<close>:
  the subscript is on \<^verbatim>\<open>result\<close>, the dict being built, and raises \<^verbatim>\<open>KeyError\<close> when the
  key is not in it yet; were it there, \<^verbatim>\<open>from_dict\<close> would call \<^verbatim>\<open>pop\<close> on a
  \<^verbatim>\<open>ColumnMetadata\<close>, which has no such attribute.
\<close>

fun column_metadata_loop ::
  "pylib \<Rightarrow> (pyval \<times> column_value) list \<Rightarrow> (pyval \<times> ColumnMetadata) list \<Rightarrow>
   pyerr + (pyval \<times> ColumnMetadata) list" where
  "column_metadata_loop L [] result = Inr result"
| "column_metadata_loop L ((key, v) # rest) result =
     (case validators_variable_name L key False of
        Inl e \<Rightarrow> Inl (ValidationError e)
      | Inr key' \<Rightarrow>
          (case v of
             Instance c \<Rightarrow> column_metadata_loop L rest (dict_set result key' c)
           | Plain x \<Rightarrow> if dict_has result key' then Inl AttributeError else Inl KeyError))"

definition set_column_metadata :: "pylib \<Rightarrow> columns_arg \<Rightarrow> Metadata \<Rightarrow> pyerr + Metadata" where
  "set_column_metadata L value self =
     (case value of
        Columns kvs \<Rightarrow>
          (if kvs = [] then Inr (self\<lparr>column_metadata := None\<rparr>)
           else (case column_metadata_loop L kvs [] of
                   Inl e \<Rightarrow> Inl e
                 | Inr result \<Rightarrow> Inr (self\<lparr>column_metadata := Some result\<rparr>)))
      | NoColumns x \<Rightarrow>
          (case validators_dict L x True of
             Inl e \<Rightarrow> Inl (ValidationError e)
           | Inr (PDict kvs) \<Rightarrow>
               (if kvs = [] then Inr (self\<lparr>column_metadata := None\<rparr>)
                else (case column_metadata_loop L (map (\<lambda>kv. (fst kv, Plain (snd kv))) kvs) [] of
                        Inl e \<Rightarrow> Inl e
                      | Inr result \<Rightarrow> Inr (self\<lparr>column_metadata := Some result\<rparr>)))
           | Inr v \<Rightarrow> Inr (self\<lparr>column_metadata := None\<rparr>)))"

definition set_file_encoding :: "pyval \<Rightarrow> Metadata \<Rightarrow> pyerr + Metadata" where
  "set_file_encoding value self =
     (case validators_string value True of
        Inl e \<Rightarrow> Inl (ValidationError e)
      | Inr v \<Rightarrow> Inr (self\<lparr>file_encoding := v\<rparr>))"

text \<open>\<^verbatim>\<open>notes\<close>: an iterable is joined with newlines; \<^verbatim>\<open>join\<close> needs strings.\<close>

definition join_lines :: "pyval \<Rightarrow> pyerr + pyval" where
  "join_lines value =
     and_then (py_iter value) (\<lambda>items.
       if \<forall>x \<in> set items. str_value x \<noteq> None
       then Inr (PStr (join_on [newline] (map (\<lambda>x. the (str_value x)) items)))
       else Inl TypeError)"

definition set_notes :: "pyval \<Rightarrow> Metadata \<Rightarrow> pyerr + Metadata" where
  "set_notes value self =
     and_then (if is_iterable value then join_lines value else Inr value) (\<lambda>value'.
       case validators_string value' True of
         Inl e \<Rightarrow> Inl (ValidationError e)
       | Inr v \<Rightarrow> Inr (self\<lparr>md_notes := v\<rparr>))"

definition set_table_name :: "pylib \<Rightarrow> pyval \<Rightarrow> Metadata \<Rightarrow> pyerr + Metadata" where
  "set_table_name L value self =
     (case validators_variable_name L value True of
        Inl e \<Rightarrow> Inl (ValidationError e)
      | Inr v \<Rightarrow> Inr (self\<lparr>table_name := v\<rparr>))"

definition set_file_label :: "pyval \<Rightarrow> Metadata \<Rightarrow> pyerr + Metadata" where
  "set_file_label value self =
     (case validators_string value True of
        Inl e \<Rightarrow> Inl (ValidationError e)
      | Inr v \<Rightarrow> Inr (self\<lparr>file_label := v\<rparr>))"

definition set_rows :: "pylib \<Rightarrow> pyval \<Rightarrow> Metadata \<Rightarrow> pyerr + Metadata" where
  "set_rows L value self =
     (case validators_integer L value False False (Some 0) of
        Inl e \<Rightarrow> Inl (ValidationError e)
      | Inr v \<Rightarrow> Inr (self\<lparr>rows := v\<rparr>))"

subsection \<open>Metadata.from\_dict\<close>

text \<open>
  The mapping given to \<^verbatim>\<open>Metadata.from_dict\<close>, by the keys it reads with \<^verbatim>\<open>get\<close>:
  \<^verbatim>\<open>None\<close> of the option type is an absent key. The mapping is not changed.
\<close>

record metadata_dict =
  d_notes :: "pyval option"
  d_table_name :: "pyval option"
  d_file_label :: "pyval option"
  d_rows :: "pyval option"
  d_file_encoding :: "pyval option"
  d_column_metadata :: "columns_arg option"

definition get_or :: "'a option \<Rightarrow> 'a \<Rightarrow> 'a" where
  "get_or entry d = (case entry of None \<Rightarrow> d | Some v \<Rightarrow> v)"

definition as_columns_arg :: "(pyval \<times> ColumnMetadata) list option \<Rightarrow> columns_arg" where
  "as_columns_arg cm =
     (case cm of None \<Rightarrow> NoColumns PNone | Some kvs \<Rightarrow> Columns (map (\<lambda>kv. (fst kv, Instance (snd kv))) kvs))"

definition Metadata_from_dict :: "pylib \<Rightarrow> metadata_dict \<Rightarrow> pyerr + Metadata" where
  "Metadata_from_dict L as_dict =
     and_then (set_notes (get_or (d_notes as_dict) (md_notes Metadata_init)) Metadata_init) (\<lambda>i1.
     and_then (set_table_name L (get_or (d_table_name as_dict) (table_name i1)) i1) (\<lambda>i2.
     and_then (set_file_label (get_or (d_file_label as_dict) (file_label i2)) i2) (\<lambda>i3.
     and_then (set_rows L (get_or (d_rows as_dict) (rows i3)) i3) (\<lambda>i4.
     and_then (set_file_encoding (get_or (d_file_encoding as_dict) (file_encoding i4)) i4) (\<lambda>i5.
       set_column_metadata L
         (get_or (d_column_metadata as_dict) (as_columns_arg (column_metadata i5))) i5)))))"

subsection \<open>Metadata.from\_pyreadstat and Metadata.to\_pyreadstat\<close>

text \<open>
  The dict comprehension \<^verbatim>\<open>{x: ColumnMetadata.from_pyreadstat_metadata(x, as_metadata) for x
  in as_metadata.column_names}\<close>. (The loop before it computes the same values and
  raises the same error, if any.)
\<close>

fun columns_from_pyreadstat ::
  "pylib \<Rightarrow> metadata_container \<Rightarrow> pyval list \<Rightarrow> (pyval \<times> column_value) list \<Rightarrow>
   pyerr + (pyval \<times> column_value) list" where
  "columns_from_pyreadstat L as_metadata [] acc = Inr acc"
| "columns_from_pyreadstat L as_metadata (x # xs) acc =
     (if \<not> hashable x then Inl TypeError
      else (case from_pyreadstat_metadata L x as_metadata of
              Inl e \<Rightarrow> Inl e
            | Inr c \<Rightarrow> columns_from_pyreadstat L as_metadata xs (dict_set acc x (Instance c))))"

definition from_pyreadstat :: "pylib \<Rightarrow> metadata_container \<Rightarrow> pyerr + Metadata" where
  "from_pyreadstat L as_metadata =
     and_then (set_notes (mc_notes as_metadata) Metadata_init) (\<lambda>i1.
     and_then (set_table_name L (mc_table_name as_metadata) i1) (\<lambda>i2.
     and_then (set_file_label (mc_file_label as_metadata) i2) (\<lambda>i3.
     and_then (set_rows L (number_rows as_metadata) i3) (\<lambda>i4.
     and_then (set_file_encoding (mc_file_encoding as_metadata) i4) (\<lambda>i5.
     and_then (columns_from_pyreadstat L as_metadata (column_names as_metadata) []) (\<lambda>cols.
       set_column_metadata L (Columns cols) i5))))))"

text \<open>
  The note that \<^verbatim>\<open>to_pyreadstat\<close> stores: when the notes split at newlines into more
  than one part, it is \<^verbatim>\<open>self.notes[0]\<close>, the first character of the string.
\<close>

definition native_notes :: "pyval \<Rightarrow> pyerr + pyval" where
  "native_notes n =
     (if truthy n
      then (case str_value n of
              None \<Rightarrow> Inl AttributeError
            | Some s \<Rightarrow> if length (split_on newline s) > 1 then Inr (PStr [hd s]) else Inr n)
      else Inr n)"

fun add_columns ::
  "pylib \<Rightarrow> (pyval \<times> ColumnMetadata) list \<Rightarrow> metadata_container \<Rightarrow> pyerr + metadata_container" where
  "add_columns L [] as_metadata = Inr as_metadata"
| "add_columns L ((column, c) # rest) as_metadata =
     (case add_to_pyreadstat L c as_metadata of
        Inl e \<Rightarrow> Inl e
      | Inr as_metadata' \<Rightarrow> add_columns L rest as_metadata')"

definition to_pyreadstat :: "pylib \<Rightarrow> Metadata \<Rightarrow> pyerr + metadata_container" where
  "to_pyreadstat L self =
     and_then (native_notes (md_notes self)) (\<lambda>n.
       let as_metadata = metadata_container_init
             \<lparr> mc_table_name := table_name self,
               mc_file_label := file_label self,
               mc_file_encoding := file_encoding self,
               mc_notes := n,
               mc_rows := Some (rows self) \<rparr>
       in (case column_metadata self of
             None \<Rightarrow> Inl TypeError
           | Some cols \<Rightarrow> add_columns L cols as_metadata))"

section \<open>Reading and writing: read.py and write.py\<close>

subsection \<open>Files, buffers and the external libraries\<close>

text \<open>
  The functions of \<^verbatim>\<open>read.py\<close> and \<^verbatim>\<open>write.py\<close> act on the file system and on
  \<^verbatim>\<open>BytesIO\<close>, \<^verbatim>\<open>StringIO\<close> and \<^verbatim>\<open>ExcelWriter\<close> objects. The state: the files by path
  (a path the caller names, or the name of a temporary file, which
  \<^verbatim>\<open>tempfile.NamedTemporaryFile\<close> makes unique), the buffer objects by address with their
  content and position, the next temporary name and address, and the number of calls of
  \<^verbatim>\<open>pyreadstat.read_sav\<close> so far. A function takes the state and gives its result, or the
  error it raised, with the state it leaves.
\<close>

type_synonym bytes = string

type_synonym dataframe = "(pyval \<times> pyval list) list"

datatype path = UserPath string | TempPath nat

record buffer =
  content :: bytes
  pos :: nat

record world =
  files :: "path \<Rightarrow> bytes option"
  heap :: "nat \<Rightarrow> buffer option"
  next_temp :: nat
  next_obj :: nat
  reads :: nat

type_synonym 'a io = "world \<Rightarrow> (pyerr + 'a) \<times> world"

definition io_then :: "'a io \<Rightarrow> ('a \<Rightarrow> 'b io) \<Rightarrow> 'b io" where
  "io_then m f w = (case m w of (Inl e, w') \<Rightarrow> (Inl e, w') | (Inr x, w') \<Rightarrow> f x w')"

definition io_pure :: "pyerr + 'a \<Rightarrow> 'a io" where
  "io_pure r w = (r, w)"

text \<open>
  What a caller passes as \<^verbatim>\<open>data\<close> and as \<^verbatim>\<open>target\<close>, and what a function returns:
  \<^verbatim>\<open>None\<close>, a text, a reference to a buffer object, or a value.
\<close>

datatype source = SStr string | SBytesIO nat | SBytes bytes | SOther

datatype target = TNone | TStr string | TStringIO nat | TBytesIO nat | TExcelWriter nat | TOther

datatype result = RNone | RText string | RObject nat | RValue pyval

text \<open>The arguments \<^verbatim>\<open>read.py\<close> gives to \<^verbatim>\<open>pyreadstat.read_sav\<close>.\<close>

record read_args =
  metadataonly :: bool
  dates_as_pandas_datetime :: bool
  apply_value_formats :: bool
  formats_as_category :: bool
  usecols :: pyval
  user_missing :: bool
  disable_datetime_conversion :: bool
  row_limit :: pyval
  row_offset :: pyval

text \<open>
  The keyword arguments \<^verbatim>\<open>write.py\<close> gives to \<^verbatim>\<open>pyreadstat.write_sav\<close> when there is
  metadata, taken from the native container.
\<close>

record sav_labels =
  sl_file_label :: pyval
  sl_column_labels :: "pyval list"
  sl_note :: pyval
  sl_variable_value_labels :: "(pyval \<times> pyval) list"
  sl_missing_ranges :: "(pyval \<times> pyval) list"
  sl_variable_display_width :: "(pyval \<times> pyval) list"
  sl_variable_measure :: "(pyval \<times> pyval) list"

record csv_args =
  include_header :: bool
  delimter :: string
  null_text :: string
  wrapper_character :: string
  escape_character :: string
  line_terminator :: string
  decimal :: string

record excel_args =
  sheet_name :: string
  start_row :: int
  start_column :: int
  na_rep :: string
  header :: bool

text \<open>
  The codec and the serializers of \<^verbatim>\<open>pyreadstat\<close>, \<^verbatim>\<open>pandas\<close>, \<^verbatim>\<open>simplejson\<close> and
  \<^verbatim>\<open>yaml\<close> are parameters: what \<^verbatim>\<open>read_sav\<close> makes of a file's bytes, the bytes
  \<^verbatim>\<open>write_sav\<close> writes, the texts \<^verbatim>\<open>DataFrame.to_csv\<close> and \<^verbatim>\<open>to_json\<close> give, the bytes of
  \<^verbatim>\<open>to_excel\<close>, \<^verbatim>\<open>pandas.read_json\<close> on a text with an orientation, \<^verbatim>\<open>pandas.read_csv\<close>
  with a delimiter and \<^verbatim>\<open>pandas.read_excel\<close> (the frame that \<^verbatim>\<open>pandas\<close> reads from the
  argument in the state in which the function is called), \<^verbatim>\<open>DataFrame.from_dict\<close>,
  \<^verbatim>\<open>json.loads\<close>, \<^verbatim>\<open>json.dumps\<close>, \<^verbatim>\<open>yaml.dump\<close> and \<^verbatim>\<open>yaml.safe_load\<close>. Each may
  raise.
\<close>

record extern =
  read_sav :: "bytes \<Rightarrow> read_args \<Rightarrow> pyerr + dataframe \<times> metadata_container"
  write_sav :: "dataframe \<Rightarrow> bool \<Rightarrow> sav_labels option \<Rightarrow> pyerr + bytes"
  df_to_csv :: "dataframe \<Rightarrow> csv_args \<Rightarrow> pyerr + string"
  df_to_json :: "dataframe \<Rightarrow> string \<Rightarrow> int \<Rightarrow> pyerr + string"
  df_to_excel :: "dataframe \<Rightarrow> excel_args \<Rightarrow> pyerr + bytes"
  read_json :: "string \<Rightarrow> string \<Rightarrow> pyerr + dataframe"
  read_csv :: "source \<Rightarrow> string \<Rightarrow> pyerr + dataframe"
  read_excel :: "source \<Rightarrow> pyerr + dataframe"
  DataFrame_from_dict :: "pyval \<Rightarrow> pyerr + dataframe"
  json_loads :: "string \<Rightarrow> pyerr + pyval"
  json_dumps :: "pyval \<Rightarrow> pyerr + string"
  yaml_dump :: "pyval \<Rightarrow> pyerr + string"
  yaml_safe_load :: "string \<Rightarrow> pyerr + pyval"

text \<open>
  \<^verbatim>\<open>checkers.is_file\<close> (a string that names an existing file), \<^verbatim>\<open>is_bytesIO\<close>,
  \<^verbatim>\<open>is_type(data, bytes)\<close>, \<^verbatim>\<open>is_pathlike\<close>, \<^verbatim>\<open>is_stringIO\<close>, and the truth value of a
  target.
\<close>

definition is_file :: "world \<Rightarrow> source \<Rightarrow> bool" where
  "is_file w data = (case data of SStr p \<Rightarrow> files w (UserPath p) \<noteq> None | _ \<Rightarrow> False)"

definition source_is_bytesIO :: "source \<Rightarrow> bool" where
  "source_is_bytesIO data = (case data of SBytesIO a \<Rightarrow> True | _ \<Rightarrow> False)"

definition source_is_bytes :: "source \<Rightarrow> bool" where
  "source_is_bytes data = (case data of SBytes b \<Rightarrow> True | _ \<Rightarrow> False)"

definition target_truthy :: "target \<Rightarrow> bool" where
  "target_truthy t = (case t of TNone \<Rightarrow> False | TStr p \<Rightarrow> p \<noteq> [] | _ \<Rightarrow> True)"

definition is_pathlike :: "target \<Rightarrow> bool" where
  "is_pathlike t = (case t of TStr p \<Rightarrow> True | _ \<Rightarrow> False)"

definition is_stringIO :: "target \<Rightarrow> bool" where
  "is_stringIO t = (case t of TStringIO a \<Rightarrow> True | _ \<Rightarrow> False)"

definition is_bytesIO :: "target \<Rightarrow> bool" where
  "is_bytesIO t = (case t of TBytesIO a \<Rightarrow> True | _ \<Rightarrow> False)"

definition is_ExcelWriter :: "target \<Rightarrow> bool" where
  "is_ExcelWriter t = (case t of TExcelWriter a \<Rightarrow> True | _ \<Rightarrow> False)"

text \<open>
  Writing into a buffer object at its position, a new \<^verbatim>\<open>BytesIO(initial)\<close> (position 0),
  and writing a file. What \<^verbatim>\<open>pandas\<close> does with the destination of \<^verbatim>\<open>to_csv\<close>,
  \<^verbatim>\<open>to_json\<close> and \<^verbatim>\<open>to_excel\<close>: a path is written as a file (the empty path cannot be
  opened), a buffer object is written into.
\<close>

definition buffer_write :: "buffer \<Rightarrow> bytes \<Rightarrow> buffer" where
  "buffer_write b d =
     \<lparr> content = take (pos b) (content b) @ replicate (pos b - length (content b)) (CHR 0x00)
                   @ d @ drop (pos b + length d) (content b),
       pos = pos b + length d \<rparr>"

definition object_write :: "nat \<Rightarrow> bytes \<Rightarrow> world \<Rightarrow> world" where
  "object_write a d w =
     w\<lparr> heap := (heap w)(a \<mapsto> buffer_write
                (case heap w a of None \<Rightarrow> \<lparr> content = [], pos = 0 \<rparr> | Some b \<Rightarrow> b) d) \<rparr>"

definition new_BytesIO :: "bytes \<Rightarrow> nat io" where
  "new_BytesIO initial w =
     (Inr (next_obj w),
      w\<lparr> heap := (heap w)(next_obj w \<mapsto> \<lparr> content = initial, pos = 0 \<rparr>),
        next_obj := Suc (next_obj w) \<rparr>)"

definition write_file :: "path \<Rightarrow> bytes \<Rightarrow> world \<Rightarrow> world" where
  "write_file p d w = w\<lparr> files := (files w)(p \<mapsto> d) \<rparr>"

definition write_to :: "target \<Rightarrow> bytes \<Rightarrow> unit io" where
  "write_to t d w =
     (case t of
        TStr p \<Rightarrow> if p = [] then (Inl OSError, w) else (Inr (), write_file (UserPath p) d w)
      | TStringIO a \<Rightarrow> (Inr (), object_write a d w)
      | TBytesIO a \<Rightarrow> (Inr (), object_write a d w)
      | TExcelWriter a \<Rightarrow> (Inr (), object_write a d w)
      | _ \<Rightarrow> (Inl TypeError, w))"

subsection \<open>read.py\<close>

text \<open>The options every reading function passes on to \<^verbatim>\<open>_read_spss\<close>.\<close>

record read_opts =
  limit :: pyval
  offset :: pyval
  exclude_variables :: pyval
  include_variables :: pyval
  metadata_only :: bool
  apply_labels :: bool
  labels_as_categories :: bool
  missing_as_NaN :: bool
  convert_datetimes :: bool
  dates_as_datetime64 :: bool

text \<open>
  \<^verbatim>\<open>validators.iterable(xs, allow_empty = True)\<close> and then, when the list is not empty,
  \<^verbatim>\<open>[validators.string(x) for x in xs]\<close>.
\<close>

definition validated_variables :: "pyval \<Rightarrow> pyerr + pyval" where
  "validated_variables xs =
     and_then (lift (validators_iterable xs True)) (\<lambda>v.
       if truthy v
       then and_then (py_iter v) (\<lambda>items.
            and_then (lift (map_err (\<lambda>x. validators_string x False) items)) (\<lambda>names.
              Inr (PList names)))
       else Inr v)"

definition codec_args :: "read_opts \<Rightarrow> pyval \<Rightarrow> pyval \<Rightarrow> pyval \<Rightarrow> read_args" where
  "codec_args opts include vlimit voffset =
     \<lparr> metadataonly = metadata_only opts,
       dates_as_pandas_datetime = dates_as_datetime64 opts,
       apply_value_formats = apply_labels opts,
       formats_as_category = labels_as_categories opts,
       usecols = include,
       user_missing = (\<not> missing_as_NaN opts),
       disable_datetime_conversion = (\<not> convert_datetimes opts),
       row_limit = (if truthy vlimit then vlimit else PInt 0),
       row_offset = voffset \<rparr>"

text \<open>
  \<^verbatim>\<open>df.drop(exclude_variables, axis = 1)\<close> raises \<^verbatim>\<open>KeyError\<close> for a label that is not a
  column; \<^verbatim>\<open>metadata.column_metadata.pop(variable, None)\<close> for each excluded variable.
\<close>

definition df_drop :: "dataframe \<Rightarrow> pyval list \<Rightarrow> pyerr + dataframe" where
  "df_drop df labels =
     (if list_all (\<lambda>l. dict_has df l) labels
      then Inr (filter (\<lambda>col. \<not> list_has labels (fst col)) df)
      else Inl KeyError)"

definition pop_columns :: "pyval list \<Rightarrow> Metadata \<Rightarrow> Metadata" where
  "pop_columns labels m =
     (case column_metadata m of
        None \<Rightarrow> m
      | Some cols \<Rightarrow>
          if cols = [] then m
          else m\<lparr>column_metadata := Some (filter (\<lambda>kc. \<not> list_has labels (fst kc)) cols)\<rparr>)"

text \<open>
  The staging of data that is not a file: a temporary file is created (it is not
  deleted when closed), the data is written into it (\<^verbatim>\<open>write\<close> takes bytes; a
  \<^verbatim>\<open>BytesIO\<close> object is not bytes and raises \<^verbatim>\<open>TypeError\<close>), the codec reads it, and
  \<^verbatim>\<open>os.remove\<close> is the statement after the codec's call.
\<close>

definition create_temp :: "nat io" where
  "create_temp w =
     (Inr (next_temp w),
      w\<lparr> files := (files w)(TempPath (next_temp w) \<mapsto> []), next_temp := Suc (next_temp w) \<rparr>)"

definition call_read_sav :: "extern \<Rightarrow> path \<Rightarrow> read_args \<Rightarrow> (dataframe \<times> metadata_container) io" where
  "call_read_sav X p args w =
     (case files w p of
        None \<Rightarrow> (Inl OSError, w\<lparr>reads := Suc (reads w)\<rparr>)
      | Some b \<Rightarrow> (read_sav X b args, w\<lparr>reads := Suc (reads w)\<rparr>))"

definition os_remove :: "path \<Rightarrow> unit io" where
  "os_remove p w =
     (case files w p of
        None \<Rightarrow> (Inl OSError, w)
      | Some b \<Rightarrow> (Inr (), w\<lparr> files := (files w)(p := None) \<rparr>))"

definition read_staged :: "extern \<Rightarrow> source \<Rightarrow> read_args \<Rightarrow> (dataframe \<times> metadata_container) io" where
  "read_staged X data args =
     io_then create_temp (\<lambda>temp_file_name.
     io_then (case data of
                SBytes b \<Rightarrow> (\<lambda>w. (Inr (), write_file (TempPath temp_file_name) b w))
              | _ \<Rightarrow> io_pure (Inl TypeError)) (\<lambda>u.
     io_then (call_read_sav X (TempPath temp_file_name) args) (\<lambda>r.
     io_then (os_remove (TempPath temp_file_name)) (\<lambda>u.
       io_pure (Inr r)))))"

text \<open>\<^verbatim>\<open>_read_spss\<close>.\<close>

definition read_spss :: "pylib \<Rightarrow> extern \<Rightarrow> source \<Rightarrow> read_opts \<Rightarrow> (dataframe \<times> Metadata) io" where
  "read_spss L X data opts w =
     (if \<not> (is_file w data \<or> source_is_bytesIO data \<or> source_is_bytes data)
      then (Inl InvalidDataFormatError, w)
      else
        (io_then (io_pure (lift (validators_integer L (limit opts) True False (Some 0)))) (\<lambda>vlimit.
         io_then (io_pure (lift (validators_integer L (offset opts) False False (Some 0)))) (\<lambda>voffset.
         io_then (io_pure (validated_variables (exclude_variables opts))) (\<lambda>exclude.
         io_then (io_pure (validated_variables (include_variables opts))) (\<lambda>include.
         io_then (\<lambda>w'. if \<not> is_file w' data
                        then read_staged X data (codec_args opts include vlimit voffset) w'
                        else (case data of
                                SStr p \<Rightarrow>
                                  call_read_sav X (UserPath p) (codec_args opts include vlimit voffset) w'
                              | _ \<Rightarrow> (Inl TypeError, w'))) (\<lambda>(df, meta).
         io_then (io_pure (from_pyreadstat L meta)) (\<lambda>metadata.
           if truthy exclude
           then io_then (io_pure (py_iter exclude)) (\<lambda>labels.
                io_then (io_pure (df_drop df labels)) (\<lambda>df'.
                  io_pure (Inr (df', pop_columns labels metadata))))
           else io_pure (Inr (df, metadata))))))))) w)"

text \<open>
  The test every function with a text target starts with; for \<^verbatim>\<open>to_excel\<close> the accepted
  targets are a path, a \<^verbatim>\<open>BytesIO\<close> and an \<^verbatim>\<open>ExcelWriter\<close>.
\<close>

definition check_text_target :: "target \<Rightarrow> unit io" where
  "check_text_target t =
     io_pure (if target_truthy t \<and> \<not> is_pathlike t \<and> \<not> is_stringIO t
              then Inl InvalidDataFormatError else Inr ())"

definition check_layout :: "string \<Rightarrow> unit io" where
  "check_layout layout =
     io_pure (if layout \<notin> set [''records'', ''table''] then Inl InvalidLayoutError else Inr ())"

definition to_csv :: "pylib \<Rightarrow> extern \<Rightarrow> source \<Rightarrow> target \<Rightarrow> csv_args \<Rightarrow> read_opts \<Rightarrow> result io" where
  "to_csv L X data t csv opts =
     io_then (check_text_target t) (\<lambda>u.
     io_then (read_spss L X data opts) (\<lambda>(df, metadata).
     io_then (io_pure (df_to_csv X df csv)) (\<lambda>text.
       if t = TNone then io_pure (Inr (RText text))
       else io_then (write_to t text) (\<lambda>u. io_pure (Inr RNone)))))"

definition to_json ::
  "pylib \<Rightarrow> extern \<Rightarrow> source \<Rightarrow> target \<Rightarrow> string \<Rightarrow> int \<Rightarrow> read_opts \<Rightarrow> result io" where
  "to_json L X data t layout double_precision opts =
     io_then (check_text_target t) (\<lambda>u.
     io_then (check_layout layout) (\<lambda>u.
     io_then (read_spss L X data opts) (\<lambda>(df, metadata).
     io_then (io_pure (df_to_json X df layout double_precision)) (\<lambda>text.
       if t = TNone then io_pure (Inr (RText text))
       else io_then (write_to t text) (\<lambda>u. io_pure (Inr RNone))))))"

text \<open>
  \<^verbatim>\<open>to_yaml\<close> with a target: \<^verbatim>\<open>open(target, 'wb')\<close> needs a path (it creates the file, or
  empties it), and \<^verbatim>\<open>write\<close> on a binary file raises \<^verbatim>\<open>TypeError\<close> for the text
  \<^verbatim>\<open>as_yaml\<close>.
\<close>

definition to_yaml ::
  "pylib \<Rightarrow> extern \<Rightarrow> source \<Rightarrow> target \<Rightarrow> string \<Rightarrow> int \<Rightarrow> read_opts \<Rightarrow> result io" where
  "to_yaml L X data t layout double_precision opts =
     io_then (check_text_target t) (\<lambda>u.
     io_then (check_layout layout) (\<lambda>u.
     io_then (read_spss L X data opts) (\<lambda>(df, metadata).
     io_then (io_pure (df_to_json X df layout double_precision)) (\<lambda>as_json.
     io_then (io_pure (json_loads X as_json)) (\<lambda>as_dict.
     io_then (io_pure (yaml_dump X as_dict)) (\<lambda>as_yaml.
       if t = TNone then io_pure (Inr (RText as_yaml))
       else (case t of
               TStr p \<Rightarrow> if p = [] then io_pure (Inl OSError)
                         else (\<lambda>w. (Inl TypeError, write_file (UserPath p) [] w))
             | _ \<Rightarrow> io_pure (Inl TypeError))))))))"

text \<open>\<^verbatim>\<open>read.to_dict\<close> (the name \<^verbatim>\<open>to_dict\<close> is \<^verbatim>\<open>ColumnMetadata.to_dict\<close> here).\<close>

definition read_to_dict ::
  "pylib \<Rightarrow> extern \<Rightarrow> source \<Rightarrow> string \<Rightarrow> int \<Rightarrow> read_opts \<Rightarrow> result io" where
  "read_to_dict L X data layout double_precision opts =
     io_then (check_layout layout) (\<lambda>u.
     io_then (to_json L X data TNone layout double_precision opts) (\<lambda>as_json.
       case as_json of
         RText text \<Rightarrow> io_then (io_pure (json_loads X text)) (\<lambda>as_dict. io_pure (Inr (RValue as_dict)))
       | _ \<Rightarrow> io_pure (Inl TypeError)))"

text \<open>
  \<^verbatim>\<open>to_excel\<close>: when the target is false or a \<^verbatim>\<open>BytesIO\<close>, the name \<^verbatim>\<open>target\<close> is bound
  to a new \<^verbatim>\<open>BytesIO()\<close>, which is written and returned.
\<close>

definition to_excel ::
  "pylib \<Rightarrow> extern \<Rightarrow> source \<Rightarrow> target \<Rightarrow> excel_args \<Rightarrow> read_opts \<Rightarrow> result io" where
  "to_excel L X data t xl opts =
     io_then (io_pure (if target_truthy t \<and> \<not> is_pathlike t \<and> \<not> is_bytesIO t
                          \<and> \<not> is_ExcelWriter t
                       then Inl InvalidDataFormatError else Inr ())) (\<lambda>u.
     io_then (read_spss L X data opts) (\<lambda>(df, metadata).
       if \<not> target_truthy t \<or> is_bytesIO t
       then io_then (new_BytesIO []) (\<lambda>a.
            io_then (io_pure (df_to_excel X df xl)) (\<lambda>d.
            io_then (write_to (TBytesIO a) d) (\<lambda>u.
              io_pure (Inr (RObject a)))))
       else io_then (io_pure (df_to_excel X df xl)) (\<lambda>d.
            io_then (write_to t d) (\<lambda>u.
              io_pure (Inr RNone)))))"

subsection \<open>write.py\<close>

text \<open>
  What \<^verbatim>\<open>from_dataframe\<close> can be given as \<^verbatim>\<open>metadata\<close>: \<^verbatim>\<open>None\<close> (or another false
  value), a \<^verbatim>\<open>Metadata\<close>, a native container, a non-empty dict, or another object. The
  first argument is a \<^verbatim>\<open>DataFrame\<close> by its type.
\<close>

datatype metadata_arg =
    MdNone
  | MdMetadata Metadata
  | MdNative metadata_container
  | MdDict metadata_dict
  | MdOther

definition as_Metadata :: "pylib \<Rightarrow> metadata_arg \<Rightarrow> pyerr + Metadata option" where
  "as_Metadata L metadata =
     (case metadata of
        MdNone \<Rightarrow> Inr None
      | MdOther \<Rightarrow> Inl ValueError
      | MdNative n \<Rightarrow> and_then (from_pyreadstat L n) (\<lambda>m. Inr (Some m))
      | MdDict d \<Rightarrow> and_then (Metadata_from_dict L d) (\<lambda>m. Inr (Some m))
      | MdMetadata m \<Rightarrow> Inr (Some m))"

definition labels_of :: "metadata_container \<Rightarrow> sav_labels" where
  "labels_of as_pyreadstat =
     \<lparr> sl_file_label = mc_file_label as_pyreadstat,
       sl_column_labels = column_labels as_pyreadstat,
       sl_note = mc_notes as_pyreadstat,
       sl_variable_value_labels = variable_value_labels as_pyreadstat,
       sl_missing_ranges = missing_ranges as_pyreadstat,
       sl_variable_display_width = variable_display_width as_pyreadstat,
       sl_variable_measure = variable_measure as_pyreadstat \<rparr>"

text \<open>
  \<^verbatim>\<open>from_dataframe\<close>. With a path, \<^verbatim>\<open>write_sav\<close> writes the file and the function ends
  without a \<^verbatim>\<open>return\<close>. Otherwise \<^verbatim>\<open>write_sav\<close> writes a temporary file, which the
  \<^verbatim>\<open>with\<close> block deletes on every way out; its bytes are written into the given
  \<^verbatim>\<open>BytesIO\<close> or into a new one, and \<^verbatim>\<open>return target\<close> gives that object back.
\<close>

definition with_temp :: "(nat \<Rightarrow> 'a io) \<Rightarrow> 'a io" where
  "with_temp body w =
     (case create_temp w of
        (Inl e, w1) \<Rightarrow> (Inl e, w1)
      | (Inr t, w1) \<Rightarrow>
          (case body t w1 of
             (r, w2) \<Rightarrow> (r, w2\<lparr> files := (files w2)(TempPath t := None) \<rparr>)))"

definition call_write_sav :: "extern \<Rightarrow> dataframe \<Rightarrow> path \<Rightarrow> bool \<Rightarrow> sav_labels option \<Rightarrow> unit io" where
  "call_write_sav X df p compress labels w =
     (case write_sav X df compress labels of
        Inl e \<Rightarrow> (Inl e, w)
      | Inr b \<Rightarrow> (Inr (), write_file p b w))"

definition read_temp :: "nat \<Rightarrow> bytes io" where
  "read_temp t w = (case files w (TempPath t) of None \<Rightarrow> (Inl OSError, w) | Some b \<Rightarrow> (Inr b, w))"

definition from_dataframe ::
  "pylib \<Rightarrow> extern \<Rightarrow> dataframe \<Rightarrow> target \<Rightarrow> metadata_arg \<Rightarrow> bool \<Rightarrow> result io" where
  "from_dataframe L X df t metadata compress =
     io_then (io_pure (as_Metadata L metadata)) (\<lambda>md.
     io_then (io_pure (if target_truthy t \<and> is_pathlike t then Inr True
                       else if target_truthy t
                       then (if is_bytesIO t then Inr False
                             else Inl (ValidationError NotBytesIOError))
                       else Inr False)) (\<lambda>is_a_file.
     io_then (io_pure (case md of
                         None \<Rightarrow> Inr None
                       | Some m \<Rightarrow> and_then (to_pyreadstat L m) (\<lambda>n. Inr (Some (labels_of n))))) (\<lambda>labels.
       if target_truthy t \<and> is_a_file
       then (case t of
               TStr p \<Rightarrow> io_then (call_write_sav X df (UserPath p) compress labels) (\<lambda>u.
                           io_pure (Inr RNone))
             | _ \<Rightarrow> io_pure (Inl TypeError))
       else with_temp (\<lambda>temp.
              io_then (call_write_sav X df (TempPath temp) compress labels) (\<lambda>u.
              io_then (read_temp temp) (\<lambda>b.
                if target_truthy t
                then (case t of
                        TBytesIO a \<Rightarrow> (\<lambda>w. (Inr (RObject a), object_write a b w))
                      | _ \<Rightarrow> io_pure (Inl TypeError))
                else io_then (new_BytesIO b) (\<lambda>a. io_pure (Inr (RObject a)))))))))"

text \<open>
  \<^verbatim>\<open>from_json\<close>, for JSON given as text. Its first statement raises \<^verbatim>\<open>errors.InvalidLayoutError\<close>, and
  \<^verbatim>\<open>write.py\<close> imports no name \<^verbatim>\<open>errors\<close> (it imports \<^verbatim>\<open>validators\<close>, \<^verbatim>\<open>checkers\<close> and
  \<^verbatim>\<open>Metadata\<close>): evaluating the name raises \<^verbatim>\<open>NameError\<close>. The text is read with the
  orientation of the keyword argument \<^verbatim>\<open>orient\<close> when given, and of \<^verbatim>\<open>layout\<close> otherwise.
\<close>

definition from_json ::
  "pylib \<Rightarrow> extern \<Rightarrow> string \<Rightarrow> target \<Rightarrow> string \<Rightarrow> bool \<Rightarrow> string option \<Rightarrow> result io" where
  "from_json L X as_json t layout compress orient_kwarg =
     io_then (io_pure (if layout \<notin> set [''records'', ''table''] then Inl NameError else Inr ())) (\<lambda>u.
     io_then (io_pure (read_json X as_json (get_or orient_kwarg layout))) (\<lambda>df.
       from_dataframe L X df t MdNone compress))"

text \<open>
  \<^verbatim>\<open>from_yaml\<close>. For a file or a \<^verbatim>\<open>BytesIO\<close> the data is loaded (\<^verbatim>\<open>open\<close> raises
  \<^verbatim>\<open>TypeError\<close> for a \<^verbatim>\<open>BytesIO\<close>) and the name \<^verbatim>\<open>as_json\<close> is never bound, so the call
  of \<^verbatim>\<open>from_json\<close> raises \<^verbatim>\<open>UnboundLocalError\<close>, a \<^verbatim>\<open>NameError\<close>. Otherwise the text is
  loaded as YAML and dumped as JSON before \<^verbatim>\<open>from_json\<close> looks at the layout.
\<close>

definition from_yaml ::
  "pylib \<Rightarrow> extern \<Rightarrow> source \<Rightarrow> target \<Rightarrow> string \<Rightarrow> bool \<Rightarrow> string option \<Rightarrow> result io" where
  "from_yaml L X as_yaml t layout compress orient_kwarg w =
     (if is_file w as_yaml \<or> source_is_bytesIO as_yaml
      then (case as_yaml of
              SStr p \<Rightarrow>
                (case files w (UserPath p) of
                   None \<Rightarrow> (Inl OSError, w)
                 | Some b \<Rightarrow> (case yaml_safe_load X b of
                               Inl e \<Rightarrow> (Inl e, w)
                             | Inr as_dict \<Rightarrow> (Inl NameError, w)))
            | _ \<Rightarrow> (Inl TypeError, w))
      else (case as_yaml of
              SStr s \<Rightarrow>
                (if s = [] then (Inl (ValidationError EmptyValueError), w)
                 else (case and_then (yaml_safe_load X s) (json_dumps X) of
                         Inl e \<Rightarrow> (Inl e, w)
                       | Inr as_json \<Rightarrow> from_json L X as_json t layout compress orient_kwarg w))
            | SBytes b \<Rightarrow>
                (if b = [] then (Inl (ValidationError EmptyValueError), w)
                 else (Inl (ValidationError CannotCoerceError), w))
            | _ \<Rightarrow> (Inl (ValidationError CannotCoerceError), w)))"

text \<open>
  \<^verbatim>\<open>from_csv\<close>, \<^verbatim>\<open>write.from_dict\<close> and \<^verbatim>\<open>from_excel\<close>: the frame that \<^verbatim>\<open>pandas\<close>
  reads, without the column \<^verbatim>\<open>Unnamed: 0\<close> for \<^verbatim>\<open>from_csv\<close> and \<^verbatim>\<open>from_excel\<close>, is
  given to \<^verbatim>\<open>from_dataframe\<close> with the target and no metadata. (The name
  \<^verbatim>\<open>from_dict\<close> is \<^verbatim>\<open>ColumnMetadata.from_dict\<close> here.)
\<close>

definition drop_unnamed :: "dataframe \<Rightarrow> pyerr + dataframe" where
  "drop_unnamed df =
     (if dict_has df (PStr ''Unnamed: 0'') then df_drop df [PStr ''Unnamed: 0''] else Inr df)"

definition from_csv ::
  "pylib \<Rightarrow> extern \<Rightarrow> source \<Rightarrow> target \<Rightarrow> bool \<Rightarrow> string \<Rightarrow> result io" where
  "from_csv L X as_csv t compress delimiter =
     io_then (io_pure (read_csv X as_csv delimiter)) (\<lambda>df.
     io_then (io_pure (drop_unnamed df)) (\<lambda>df'.
       from_dataframe L X df' t MdNone compress))"

definition write_from_dict ::
  "pylib \<Rightarrow> extern \<Rightarrow> pyval \<Rightarrow> target \<Rightarrow> bool \<Rightarrow> result io" where
  "write_from_dict L X as_dict t compress =
     io_then (io_pure (DataFrame_from_dict X as_dict)) (\<lambda>df.
       from_dataframe L X df t MdNone compress)"

definition from_excel ::
  "pylib \<Rightarrow> extern \<Rightarrow> source \<Rightarrow> target \<Rightarrow> bool \<Rightarrow> result io" where
  "from_excel L X as_excel t compress =
     io_then (io_pure (read_excel X as_excel)) (\<lambda>df.
     io_then (io_pure (drop_unnamed df)) (\<lambda>df'.
       from_dataframe L X df' t MdNone compress))"

section \<open>Sample inputs\<close>

text \<open>
  An instance of the library parameters for evaluating the model on concrete inputs:
  identifiers of letters, digits and underscores parse as assignment targets, no string is
  read as a float or decoded as a dict.
\<close>

definition ident_start :: "char \<Rightarrow> bool" where
  "ident_start c =
     (let n = (of_char c :: nat) in (65 \<le> n \<and> n \<le> 90) \<or> (97 \<le> n \<and> n \<le> 122) \<or> n = 95)"

definition ident_char :: "char \<Rightarrow> bool" where
  "ident_char c = (ident_start c \<or> (48 \<le> (of_char c :: nat) \<and> (of_char c :: nat) \<le> 57))"

definition is_identifier :: "string \<Rightarrow> bool" where
  "is_identifier s = (case s of [] \<Rightarrow> False | c # cs \<Rightarrow> ident_start c \<and> list_all ident_char cs)"

definition sample_lib :: pylib where
  "sample_lib =
     \<lparr> parse_target = is_identifier, float_of_str = (\<lambda>s. None),
       json_dict = (\<lambda>s. Inl CannotCoerceError), str_other = (\<lambda>x. ''None'') \<rparr>"

text \<open>
  The column of the specification's example: \<^verbatim>\<open>age\<close>, labelled, right aligned, a scale, of
  width 8, with two value labels.
\<close>

definition c_age :: ColumnMetadata where
  "c_age =
     \<lparr> name = PStr ''age'', label = PStr ''Age in years'',
       value_metadata = PDict [(PInt 1, PStr ''Yes''), (PInt 0, PStr ''No'')],
       missing_range_metadata = PNone, missing_value_metadata = PNone,
       alignment = PStr ''right'', measure = PStr ''scale'',
       display_width = PInt 8, storage_width = PInt 8 \<rparr>"

text \<open>A native container describing a dataset of ten rows with that one column.\<close>

definition n_age :: metadata_container where
  "n_age =
     metadata_container_init
       \<lparr> column_names := [PStr ''age''],
         column_labels := [PStr ''Age in years''],
         column_names_to_labels := [(PStr ''age'', PStr ''Age in years'')],
         variable_alignment := [(PStr ''age'', PStr ''right'')],
         variable_measure := [(PStr ''age'', PStr ''scale'')],
         variable_display_width := [(PStr ''age'', PInt 8)],
         variable_storage_width := [(PStr ''age'', PInt 8)],
         variable_value_labels :=
           [(PStr ''age'', PDict [(PInt 1, PStr ''Yes''), (PInt 0, PStr ''No'')])],
         mc_file_encoding := PStr ''UTF-8'',
         number_rows := PInt 10 \<rparr>"


text \<open>A native container of a dataset without columns.\<close>

definition n_no_columns :: metadata_container where
  "n_no_columns = metadata_container_init \<lparr> number_rows := PInt 0 \<rparr>"

text \<open>A \<^verbatim>\<open>Metadata\<close> with two lines of notes and the column \<^verbatim>\<open>age\<close>.\<close>

definition m_two_lines :: Metadata where
  "m_two_lines =
     \<lparr> column_metadata = Some [(PStr ''age'', c_age)],
       md_notes = PStr (''line1'' @ [newline] @ ''line2''),
       file_encoding = PNone, rows = PInt 0, table_name = PNone, file_label = PNone \<rparr>"

text \<open>Mappings for \<^verbatim>\<open>ColumnMetadata.from_dict\<close> and \<^verbatim>\<open>Metadata.from_dict\<close>.\<close>

definition d_age :: strdict where
  "d_age =
     [(''name'', PStr ''age''), (''display_width'', PInt 8), (''storage_width'', PInt 8),
      (''extra'', PInt 1)]"

definition d_diagonal :: strdict where
  "d_diagonal = [(''alignment'', PStr ''diagonal''), (''display_width'', PInt 8)]"

definition md_plain_column :: metadata_dict where
  "md_plain_column =
     \<lparr> d_notes = None, d_table_name = None, d_file_label = None, d_rows = None,
       d_file_encoding = None,
       d_column_metadata =
         Some (Columns [(PStr ''age'',
                 Plain (PDict [(PStr ''name'', PStr ''age''), (PStr ''display_width'', PInt 8),
                               (PStr ''storage_width'', PInt 8)]))]) \<rparr>"

text \<open>
  A data frame with the column \<^verbatim>\<open>age\<close>, and an instance of the external libraries: the
  codec reads the bytes \<^verbatim>\<open>SAV\<close> as that frame with the example container and rejects
  everything else; the writers give fixed bytes and texts.
\<close>

definition df_age :: dataframe where
  "df_age = [(PStr ''age'', [PInt 30, PInt 41])]"

definition sample_extern :: extern where
  "sample_extern =
     \<lparr> read_sav = (\<lambda>b args. if b = ''SAV'' then Inr (df_age, n_age)
                                else Inl (CodecError ''not a sav file'')),
       write_sav = (\<lambda>df compress labels. Inr ''SAV''),
       df_to_csv = (\<lambda>df csv. Inr ''age|30|41''),
       df_to_json = (\<lambda>df layout double_precision. Inr ''[30, 41]''),
       df_to_excel = (\<lambda>df xl. Inr ''XLSX''),
       read_json = (\<lambda>text orient. Inr df_age),
       read_csv = (\<lambda>as_csv delimiter. Inr df_age),
       read_excel = (\<lambda>as_excel. Inr df_age),
       DataFrame_from_dict = (\<lambda>as_dict. Inr df_age),
       json_loads = (\<lambda>text. Inr (PList [PInt 30, PInt 41])),
       json_dumps = (\<lambda>v. Inr ''[30, 41]''),
       yaml_dump = (\<lambda>v. Inr ''- 30''),
       yaml_safe_load = (\<lambda>text. Inr (PList [PInt 30, PInt 41])) \<rparr>"

text \<open>
  The default options of the reading functions, an empty state, and a state with one empty
  \<^verbatim>\<open>BytesIO\<close> object at address 0.
\<close>

definition default_opts :: read_opts where
  "default_opts =
     \<lparr> limit = PNone, offset = PInt 0, exclude_variables = PNone, include_variables = PNone,
       metadata_only = False, apply_labels = False, labels_as_categories = True,
       missing_as_NaN = False, convert_datetimes = True, dates_as_datetime64 = False \<rparr>"

definition default_csv :: csv_args where
  "default_csv =
     \<lparr> include_header = True, delimter = ''|'', null_text = ''NaN'', wrapper_character = [CHR 0x27],
       escape_character = [CHR 0x5C], line_terminator = [CHR 0x0D, CHR 0x0A], decimal = ''.'' \<rparr>"

definition default_excel :: excel_args where
  "default_excel =
     \<lparr> sheet_name = ''Sheet1'', start_row = 0, start_column = 0, na_rep = ''NaN'',
       header = True \<rparr>"

definition empty_world :: world where
  "empty_world = \<lparr> files = Map.empty, heap = Map.empty, next_temp = 0, next_obj = 0, reads = 0 \<rparr>"

definition world_with_buffer :: world where
  "world_with_buffer = empty_world \<lparr> heap := [0 \<mapsto> \<lparr> content = [], pos = 0 \<rparr>], next_obj := 1 \<rparr>"

text \<open>
  Two containers agree on the notes and on the two row counts.
\<close>

definition same_scalars :: "metadata_container \<Rightarrow> metadata_container \<Rightarrow> bool" where
  "same_scalars p p' =
     (mc_notes p' = mc_notes p \<and> number_rows p' = number_rows p \<and> mc_rows p' = mc_rows p)"

section \<open>Properties\<close>

lemmas validator_defs =
  validators_string_def validators_variable_name_def validators_numeric_def
  validators_integer_def validators_dict_def validators_iterable_def check_minimum_def
  is_string_def is_numeric_def is_iterable_def lift_def

lemmas setter_defs =
  set_name_def set_label_def set_alignment_def set_measure_def set_display_width_def
  set_storage_width_def set_value_metadata_def set_missing_range_metadata_def
  set_missing_value_metadata_def enum_setter_value_def validate_value_label_def
  range_as_dict_def validated_range_def validated_item_def VariableAlignmentEnum_values_def
  VariableMeasureEnum_values_def lower_def lower_char_def

lemmas metadata_setter_defs =
  set_column_metadata_def set_file_encoding_def set_notes_def set_table_name_def
  set_file_label_def set_rows_def join_lines_def get_or_def as_columns_arg_def

lemmas sample_defs = sample_lib_def is_identifier_def ident_start_def ident_char_def

lemmas io_defs =
  io_then_def io_pure_def check_text_target_def check_layout_def target_truthy_def
  is_pathlike_def is_stringIO_def is_bytesIO_def is_ExcelWriter_def

lemmas native_defs =
  add_to_pyreadstat_def add_formats_def add_value_labels_def add_missing_ranges_def
  add_missing_user_values_def add_column_name_def to_native_range_def from_native_range_def
  metadata_container_init_def list_has_def py_str_def to_pyreadstat_def native_notes_def

subsection \<open>What from\_dict does to its argument\<close>

lemma pop_snd: "snd (pop k d m) = filter (\<lambda>kv. fst kv \<noteq> k) m"
proof (cases "map_of m k")
  case None
  then have "k \<notin> fst ` set m" by (simp add: map_of_eq_None_iff)
  then have "filter (\<lambda>kv. fst kv \<noteq> k) m = m" by (auto simp: filter_id_conv)
  with None show ?thesis by (simp add: pop_def)
next
  case (Some v)
  then show ?thesis by (simp add: pop_def)
qed

lemma pop_set_keeps_others:
  assumes "k \<in> S"
  shows "filter (\<lambda>kv. fst kv \<notin> S) (snd (pop_set k g f st)) = filter (\<lambda>kv. fst kv \<notin> S) (snd st)"
proof (cases "fst st")
  case (Inl e)
  then show ?thesis by (simp add: pop_set_def)
next
  case (Inr i)
  have "snd (pop_set k g f st) = snd (pop k (g i) (snd st))"
    using Inr by (simp add: pop_set_def split: prod.splits)
  then have "snd (pop_set k g f st) = filter (\<lambda>kv. fst kv \<noteq> k) (snd st)"
    by (simp add: pop_snd)
  moreover have "filter (\<lambda>kv. fst kv \<notin> S) (filter (\<lambda>kv. fst kv \<noteq> k) (snd st)) =
      filter (\<lambda>kv. fst kv \<notin> S) (snd st)"
    using assms by (auto intro: filter_cong)
  ultimately show ?thesis by simp
qed

lemma pop_set_success:
  assumes "fst (pop_set k g f st) = Inr c"
  shows "(\<exists>i. fst st = Inr i) \<and> snd (pop_set k g f st) = filter (\<lambda>kv. fst kv \<noteq> k) (snd st)"
proof (cases "fst st")
  case (Inl e)
  with assms show ?thesis by (simp add: pop_set_def)
next
  case (Inr i)
  have "snd (pop_set k g f st) = snd (pop k (g i) (snd st))"
    using Inr by (simp add: pop_set_def split: prod.splits)
  then show ?thesis using Inr by (simp add: pop_snd)
qed

lemma from_dict_keeps_unrecognized:
  "filter (\<lambda>kv. fst kv \<notin> set recognized_keys) (snd (from_dict L as_dict)) =
   filter (\<lambda>kv. fst kv \<notin> set recognized_keys) as_dict"
proof -
  have k: "''name'' \<in> set recognized_keys" "''label'' \<in> set recognized_keys"
    "''alignment'' \<in> set recognized_keys" "''measure'' \<in> set recognized_keys"
    "''display_width'' \<in> set recognized_keys" "''storage_width'' \<in> set recognized_keys"
    "''value_metadata'' \<in> set recognized_keys"
    "''missing_range_metadata'' \<in> set recognized_keys"
    "''missing_value_metadata'' \<in> set recognized_keys"
    by (simp_all add: recognized_keys_def)
  show ?thesis
    unfolding from_dict_def
    by (simp only: pop_set_keeps_others[OF k(1)] pop_set_keeps_others[OF k(2)]
          pop_set_keeps_others[OF k(3)] pop_set_keeps_others[OF k(4)]
          pop_set_keeps_others[OF k(5)] pop_set_keeps_others[OF k(6)]
          pop_set_keeps_others[OF k(7)] pop_set_keeps_others[OF k(8)]
          pop_set_keeps_others[OF k(9)] snd_conv)
qed

lemma from_dict_success_pops_all:
  assumes "fst (from_dict L as_dict) = Inr c"
  shows "snd (from_dict L as_dict) = filter (\<lambda>kv. fst kv \<notin> set recognized_keys) as_dict"
proof -
  define s0 where "s0 = (Inr ColumnMetadata_init :: pyerr + ColumnMetadata, as_dict)"
  define s1 where "s1 = pop_set ''name'' name (set_name L) s0"
  define s2 where "s2 = pop_set ''label'' label set_label s1"
  define s3 where "s3 = pop_set ''alignment'' alignment set_alignment s2"
  define s4 where "s4 = pop_set ''measure'' measure set_measure s3"
  define s5 where "s5 = pop_set ''display_width'' display_width (set_display_width L) s4"
  define s6 where "s6 = pop_set ''storage_width'' storage_width (set_storage_width L) s5"
  define s7 where "s7 = pop_set ''value_metadata'' value_metadata (set_value_metadata L) s6"
  define s8 where "s8 = pop_set ''missing_range_metadata'' missing_range_metadata
                          (set_missing_range_metadata L) s7"
  define s9 where "s9 = pop_set ''missing_value_metadata'' missing_value_metadata
                          (set_missing_value_metadata L) s8"
  have fd: "from_dict L as_dict = s9"
    by (simp add: from_dict_def s0_def s1_def s2_def s3_def s4_def s5_def s6_def s7_def s8_def s9_def)
  from assms fd have r9: "fst s9 = Inr c" by simp
  from pop_set_success[OF r9[unfolded s9_def]] obtain c8 where
    r8: "fst s8 = Inr c8" and e9: "snd s9 = filter (\<lambda>kv. fst kv \<noteq> ''missing_value_metadata'') (snd s8)"
    by (auto simp: s9_def)
  from pop_set_success[OF r8[unfolded s8_def]] obtain c7 where
    r7: "fst s7 = Inr c7" and e8: "snd s8 = filter (\<lambda>kv. fst kv \<noteq> ''missing_range_metadata'') (snd s7)"
    by (auto simp: s8_def)
  from pop_set_success[OF r7[unfolded s7_def]] obtain c6 where
    r6: "fst s6 = Inr c6" and e7: "snd s7 = filter (\<lambda>kv. fst kv \<noteq> ''value_metadata'') (snd s6)"
    by (auto simp: s7_def)
  from pop_set_success[OF r6[unfolded s6_def]] obtain c5 where
    r5: "fst s5 = Inr c5" and e6: "snd s6 = filter (\<lambda>kv. fst kv \<noteq> ''storage_width'') (snd s5)"
    by (auto simp: s6_def)
  from pop_set_success[OF r5[unfolded s5_def]] obtain c4 where
    r4: "fst s4 = Inr c4" and e5: "snd s5 = filter (\<lambda>kv. fst kv \<noteq> ''display_width'') (snd s4)"
    by (auto simp: s5_def)
  from pop_set_success[OF r4[unfolded s4_def]] obtain c3 where
    r3: "fst s3 = Inr c3" and e4: "snd s4 = filter (\<lambda>kv. fst kv \<noteq> ''measure'') (snd s3)"
    by (auto simp: s4_def)
  from pop_set_success[OF r3[unfolded s3_def]] obtain c2 where
    r2: "fst s2 = Inr c2" and e3: "snd s3 = filter (\<lambda>kv. fst kv \<noteq> ''alignment'') (snd s2)"
    by (auto simp: s3_def)
  from pop_set_success[OF r2[unfolded s2_def]] obtain c1 where
    r1: "fst s1 = Inr c1" and e2: "snd s2 = filter (\<lambda>kv. fst kv \<noteq> ''label'') (snd s1)"
    by (auto simp: s2_def)
  from pop_set_success[OF r1[unfolded s1_def]] have
    e1: "snd s1 = filter (\<lambda>kv. fst kv \<noteq> ''name'') (snd s0)"
    by (auto simp: s1_def)
  have "snd s9 = filter (\<lambda>kv. fst kv \<notin> set recognized_keys) as_dict"
    unfolding e9 e8 e7 e6 e5 e4 e3 e2 e1
    by (auto simp: s0_def recognized_keys_def intro: filter_cong)
  with fd show ?thesis by simp
qed


subsection \<open>No setter raises ColumnNameNotFoundError\<close>



















subsection \<open>add\_to\_pyreadstat leaves the notes and the row counts alone\<close>

lemma and_then_Inr: "and_then m f = Inr y \<longleftrightarrow> (\<exists>x. m = Inr x \<and> f x = Inr y)"
  by (cases m) auto

lemma same_scalars_trans: "same_scalars p q \<Longrightarrow> same_scalars q r \<Longrightarrow> same_scalars p r"
  by (simp add: same_scalars_def)

lemma add_formats_scalars: "same_scalars p (add_formats L c p)"
  by (simp add: same_scalars_def add_formats_def)

lemma add_value_labels_scalars: "add_value_labels c p = Inr p' \<Longrightarrow> same_scalars p p'"
  by (auto simp: same_scalars_def add_value_labels_def and_then_Inr split: if_splits)

lemma add_missing_ranges_scalars: "add_missing_ranges c p = Inr p' \<Longrightarrow> same_scalars p p'"
  by (auto simp: same_scalars_def add_missing_ranges_def and_then_Inr split: if_splits)

lemma add_missing_user_values_scalars:
  "add_missing_user_values c p = Inr p' \<Longrightarrow> same_scalars p p'"
  by (auto simp: same_scalars_def add_missing_user_values_def and_then_Inr split: if_splits)

lemma add_column_name_scalars: "add_column_name c p = Inr p' \<Longrightarrow> same_scalars p p'"
  by (auto simp: same_scalars_def add_column_name_def Let_def split: if_splits)

lemma add_to_pyreadstat_scalars:
  assumes "add_to_pyreadstat L c p = Inr p'"
  shows "same_scalars p p'"
proof -
  from assms obtain p1 p2 p3 where
    s1: "add_value_labels c (add_formats L c p) = Inr p1" and
    s2: "add_missing_ranges c p1 = Inr p2" and
    s3: "add_missing_user_values c p2 = Inr p3" and
    s4: "add_column_name c p3 = Inr p'"
    by (auto simp: add_to_pyreadstat_def and_then_Inr split: if_splits)
  show ?thesis
    using add_formats_scalars[of p L c] add_value_labels_scalars[OF s1]
      add_missing_ranges_scalars[OF s2] add_missing_user_values_scalars[OF s3]
      add_column_name_scalars[OF s4]
    by (simp add: same_scalars_def)
qed

lemma add_columns_scalars: "add_columns L cols p = Inr p' \<Longrightarrow> same_scalars p p'"
proof (induction cols arbitrary: p)
  case Nil
  then show ?case by (simp add: same_scalars_def)
next
  case (Cons kc cols)
  obtain k c where kc: "kc = (k, c)" by (cases kc)
  from Cons.prems kc obtain p1 where a: "add_to_pyreadstat L c p = Inr p1"
    and b: "add_columns L cols p1 = Inr p'"
    by (auto split: sum.splits)
  from Cons.IH[OF b] add_to_pyreadstat_scalars[OF a] show ?case
    by (rule same_scalars_trans[rotated])
qed

subsection \<open>Claim C9: a bare scalar given to missing\_value\_metadata\<close>

text \<open>
  C9, as amended. Assigning a non-empty string \<open>s\<close> to
  \<^verbatim>\<open>ColumnMetadata.missing_value_metadata\<close> stores the one-element list \<open>[s]\<close>; assigning
  any false value (\<^verbatim>\<open>None\<close>, an empty sequence, and also the number 0 and the empty string)
  stores \<^verbatim>\<open>None\<close>.
\<close>

theorem set_missing_value_metadata_scalar:
  "(s \<noteq> [] \<longrightarrow>
      set_missing_value_metadata L (PStr s) self
        = Inr (self\<lparr>missing_value_metadata := PList [PStr s]\<rparr>)) \<and>
   (\<not> truthy v \<longrightarrow>
      set_missing_value_metadata L v self = Inr (self\<lparr>missing_value_metadata := PNone\<rparr>))"
  by (simp add: set_missing_value_metadata_def is_string_def validated_item_def
      validators_string_def)

text \<open>The theorem at the string \<^verbatim>\<open>NA\<close> and at the empty list.\<close>

theorem set_missing_value_metadata_scalar_witness:
  "''NA'' \<noteq> [] \<and>
   set_missing_value_metadata sample_lib (PStr ''NA'') ColumnMetadata_init
     = Inr (ColumnMetadata_init\<lparr>missing_value_metadata := PList [PStr ''NA'']\<rparr>) \<and>
   \<not> truthy (PList []) \<and>
   set_missing_value_metadata sample_lib (PList []) ColumnMetadata_init
     = Inr (ColumnMetadata_init\<lparr>missing_value_metadata := PNone\<rparr>)"
proof -
  have h1: "''NA'' \<noteq> []" by simp
  have h2: "\<not> truthy (PList [])" by simp
  show ?thesis
    using set_missing_value_metadata_scalar[of "''NA''" sample_lib ColumnMetadata_init "PList []"]
      h1 h2 by blast
qed

text \<open>
  C9 as stated fails at the number 0 and at the empty string: the setter's first test,
  \<^verbatim>\<open>if not value\<close>, stores \<^verbatim>\<open>None\<close> for both, not a one-element list.
\<close>

theorem set_missing_value_metadata_zero_and_empty_string:
  "set_missing_value_metadata sample_lib (PInt 0) ColumnMetadata_init
     = Inr (ColumnMetadata_init\<lparr>missing_value_metadata := PNone\<rparr>) \<and>
   set_missing_value_metadata sample_lib (PStr '''') ColumnMetadata_init
     = Inr (ColumnMetadata_init\<lparr>missing_value_metadata := PNone\<rparr>) \<and>
   PNone \<noteq> PList [PInt 0] \<and> PNone \<noteq> PList [PStr '''']"
  by (simp add: set_missing_value_metadata_def)

subsection \<open>Claim C10: from\_dict changes the caller's dictionary\<close>

lemma run_steps_append: "run_steps (xs @ ys) st = run_steps ys (run_steps xs st)"
  by (induction xs st rule: run_steps.induct) simp_all

lemma from_dict_run_steps:
  "from_dict L as_dict = run_steps (from_dict_steps L) (Inr ColumnMetadata_init, as_dict)"
  by (simp add: from_dict_def from_dict_steps_def)

lemma from_dict_steps_keys: "map fst (from_dict_steps L) = recognized_keys"
  by (simp add: from_dict_steps_def recognized_keys_def)

lemma run_steps_after_error: "fst st = Inl e \<Longrightarrow> run_steps xs st = st"
proof (induction xs st rule: run_steps.induct)
  case (1 st)
  then show ?case by simp
next
  case (2 key getter setter rest st)
  from "2.prems" have "pop_set key getter setter st = st" by (simp add: pop_set_def)
  with 2 show ?case by simp
qed

lemma pop_set_step:
  "pop_set key getter setter (Inr i, d) =
     (setter (fst (pop key (getter i) d)) i, filter (\<lambda>kv. fst kv \<noteq> key) d)"
proof -
  obtain v d' where p: "pop key (getter i) d = (v, d')" by (cases "pop key (getter i) d")
  with pop_snd[of key "getter i" d] have "d' = filter (\<lambda>kv. fst kv \<noteq> key) d" by simp
  with p show ?thesis by (simp add: pop_set_def)
qed

lemma filter_more_keys:
  "filter (\<lambda>kv. fst kv \<notin> set ks) (filter (\<lambda>kv. fst kv \<noteq> k) d)
     = filter (\<lambda>kv. fst kv \<notin> set (k # ks)) d"
  by (auto intro: filter_cong)

lemma run_steps_success:
  "fst (run_steps xs (Inr i, d)) = Inr c \<Longrightarrow>
   snd (run_steps xs (Inr i, d)) = filter (\<lambda>kv. fst kv \<notin> set (map fst xs)) d"
proof (induction xs arbitrary: i d)
  case Nil
  then show ?case by simp
next
  case (Cons x xs)
  obtain key getter setter where x: "x = (key, getter, setter)" by (cases x)
  let ?d = "filter (\<lambda>kv. fst kv \<noteq> key) d"
  let ?r = "setter (fst (pop key (getter i) d)) i"
  have st: "run_steps (x # xs) (Inr i, d) = run_steps xs (?r, ?d)"
    by (simp add: x pop_set_step)
  show ?case
  proof (cases ?r)
    case (Inl e)
    then have "run_steps xs (?r, ?d) = (?r, ?d)" by (simp add: run_steps_after_error)
    with Cons.prems st Inl show ?thesis by simp
  next
    case (Inr i')
    with Cons.prems st have "fst (run_steps xs (Inr i', ?d)) = Inr c" by simp
    from Cons.IH[OF this] have "snd (run_steps xs (Inr i', ?d))
        = filter (\<lambda>kv. fst kv \<notin> set (map fst xs)) ?d" .
    moreover have "snd (run_steps (x # xs) (Inr i, d)) = snd (run_steps xs (Inr i', ?d))"
      using st Inr by simp
    moreover have "filter (\<lambda>kv. fst kv \<notin> set (map fst xs)) ?d
        = filter (\<lambda>kv. fst kv \<notin> set (map fst (x # xs))) d"
      by (auto simp: x intro!: filter_cong)
    ultimately show ?thesis by simp
  qed
qed

lemma run_steps_first_error:
  assumes "n < length xs"
    and "fst (run_steps (take n xs) (Inr i0, d)) = Inr i"
    and "fst (run_steps (take (Suc n) xs) (Inr i0, d)) = Inl e"
  shows "run_steps xs (Inr i0, d)
           = (Inl e, filter (\<lambda>kv. fst kv \<notin> set (take (Suc n) (map fst xs))) d)"
proof -
  obtain key getter setter where x: "xs ! n = (key, getter, setter)" by (cases "xs ! n")
  have tk: "take (Suc n) xs = take n xs @ [(key, getter, setter)]"
    using assms(1) x by (simp add: take_Suc_conv_app_nth)
  let ?dn = "filter (\<lambda>kv. fst kv \<notin> set (map fst (take n xs))) d"
  have sn: "run_steps (take n xs) (Inr i0, d) = (Inr i, ?dn)"
    using assms(2) run_steps_success[OF assms(2)] by (simp add: prod_eq_iff)
  have s1: "run_steps (take (Suc n) xs) (Inr i0, d)
              = (setter (fst (pop key (getter i) ?dn)) i, filter (\<lambda>kv. fst kv \<noteq> key) ?dn)"
    by (simp add: tk run_steps_append sn pop_set_step)
  have keys: "take (Suc n) (map fst xs) = map fst (take n xs) @ [key]"
    by (simp only: take_map tk map_append list.map fst_conv)
  have "filter (\<lambda>kv. fst kv \<noteq> key) ?dn
          = filter (\<lambda>kv. fst kv \<notin> set (take (Suc n) (map fst xs))) d"
    unfolding keys by (auto intro: filter_cong)
  with s1 assms(3) have s2: "run_steps (take (Suc n) xs) (Inr i0, d)
      = (Inl e, filter (\<lambda>kv. fst kv \<notin> set (take (Suc n) (map fst xs))) d)"
    by (simp add: prod_eq_iff)
  have "run_steps xs (Inr i0, d)
          = run_steps (drop (Suc n) xs) (run_steps (take (Suc n) xs) (Inr i0, d))"
    using run_steps_append[of "take (Suc n) xs" "drop (Suc n) xs"] by simp
  then show ?thesis by (simp add: s2 run_steps_after_error)
qed

lemma run_steps_error_index:
  "fst (run_steps xs (Inr i0, d)) = Inl e \<Longrightarrow>
   \<exists>n < length xs. (\<exists>i. fst (run_steps (take n xs) (Inr i0, d)) = Inr i) \<and>
                   fst (run_steps (take (Suc n) xs) (Inr i0, d)) = Inl e"
proof (induction xs rule: rev_induct)
  case Nil
  then show ?case by simp
next
  case (snoc x xs)
  show ?case
  proof (cases "fst (run_steps xs (Inr i0, d))")
    case (Inl e')
    then have "run_steps (xs @ [x]) (Inr i0, d) = run_steps xs (Inr i0, d)"
      by (simp add: run_steps_append run_steps_after_error)
    with snoc.prems Inl have "fst (run_steps xs (Inr i0, d)) = Inl e" by simp
    from snoc.IH[OF this] obtain n i where n: "n < length xs"
      and a: "fst (run_steps (take n xs) (Inr i0, d)) = Inr i"
      and b: "fst (run_steps (take (Suc n) xs) (Inr i0, d)) = Inl e"
      by blast
    from n a b show ?thesis
      by (intro exI[of _ n]) auto
  next
    case (Inr i)
    with snoc.prems show ?thesis
      by (intro exI[of _ "length xs"]) auto
  qed
qed

text \<open>
  C10, as amended. \<^verbatim>\<open>ColumnMetadata.from_dict\<close> changes its argument. The entries with
  unrecognized keys are always left in place, in their order. Whenever the call returns
  an instance, every one of the nine recognized keys has been removed, so that exactly the
  unrecognized entries remain. When the first \<open>n\<close> setters succeed and the next one raises,
  the call raises that error and has removed exactly the first \<open>n + 1\<close> recognized keys:
  the recognized keys after the failing one are still in the dictionary. And whenever the
  call raises, it is in that way, at some line.
\<close>

theorem from_dict_pops_recognized_keys:
  "filter (\<lambda>kv. fst kv \<notin> set recognized_keys) (snd (from_dict L as_dict))
     = filter (\<lambda>kv. fst kv \<notin> set recognized_keys) as_dict \<and>
   (\<forall>c. fst (from_dict L as_dict) = Inr c \<longrightarrow>
      snd (from_dict L as_dict) = filter (\<lambda>kv. fst kv \<notin> set recognized_keys) as_dict) \<and>
   (\<forall>i e. n < length recognized_keys \<and>
      fst (run_steps (take n (from_dict_steps L)) (Inr ColumnMetadata_init, as_dict)) = Inr i \<and>
      fst (run_steps (take (Suc n) (from_dict_steps L)) (Inr ColumnMetadata_init, as_dict)) = Inl e
      \<longrightarrow> from_dict L as_dict
            = (Inl e, filter (\<lambda>kv. fst kv \<notin> set (take (Suc n) recognized_keys)) as_dict)) \<and>
   (\<forall>e. fst (from_dict L as_dict) = Inl e \<longrightarrow>
      (\<exists>m < length recognized_keys.
         (\<exists>i. fst (run_steps (take m (from_dict_steps L)) (Inr ColumnMetadata_init, as_dict))
                = Inr i) \<and>
         fst (run_steps (take (Suc m) (from_dict_steps L)) (Inr ColumnMetadata_init, as_dict))
           = Inl e))"
proof (intro conjI allI impI)
  show "filter (\<lambda>kv. fst kv \<notin> set recognized_keys) (snd (from_dict L as_dict))
     = filter (\<lambda>kv. fst kv \<notin> set recognized_keys) as_dict"
    by (rule from_dict_keeps_unrecognized)
next
  fix c assume "fst (from_dict L as_dict) = Inr c"
  then show "snd (from_dict L as_dict)
      = filter (\<lambda>kv. fst kv \<notin> set recognized_keys) as_dict"
    by (rule from_dict_success_pops_all)
next
  fix i e
  assume h: "n < length recognized_keys \<and>
      fst (run_steps (take n (from_dict_steps L)) (Inr ColumnMetadata_init, as_dict)) = Inr i \<and>
      fst (run_steps (take (Suc n) (from_dict_steps L)) (Inr ColumnMetadata_init, as_dict)) = Inl e"
  have len: "length (from_dict_steps L) = length recognized_keys"
    by (simp add: from_dict_steps_def recognized_keys_def)
  from h len have n: "n < length (from_dict_steps L)" by simp
  from run_steps_first_error[OF n] h
  show "from_dict L as_dict
         = (Inl e, filter (\<lambda>kv. fst kv \<notin> set (take (Suc n) recognized_keys)) as_dict)"
    by (simp add: from_dict_run_steps from_dict_steps_keys)
next
  fix e assume "fst (from_dict L as_dict) = Inl e"
  then have "fst (run_steps (from_dict_steps L) (Inr ColumnMetadata_init, as_dict)) = Inl e"
    by (simp add: from_dict_run_steps)
  from run_steps_error_index[OF this]
  show "\<exists>m < length recognized_keys.
         (\<exists>i. fst (run_steps (take m (from_dict_steps L)) (Inr ColumnMetadata_init, as_dict))
                = Inr i) \<and>
         fst (run_steps (take (Suc m) (from_dict_steps L)) (Inr ColumnMetadata_init, as_dict))
           = Inl e"
    by (simp add: from_dict_steps_def recognized_keys_def)
qed

text \<open>
  The theorem at a mapping with a name, both widths and one unrecognized key, where the
  call returns an instance and only the unrecognized entry is left; and at a mapping with
  the alignment \<^verbatim>\<open>diagonal\<close> and a display width, where the first two lines succeed, the
  third raises \<^verbatim>\<open>ValueError\<close> and the display width is left.
\<close>

lemma from_dict_d_age:
  "fst (from_dict sample_lib d_age) =
     Inr (ColumnMetadata_init\<lparr>name := PStr ''age'', alignment := PStr ''unknown'',
            measure := PStr ''unknown'', display_width := PInt 8, storage_width := PInt 8\<rparr>)"
  by (simp add: from_dict_def pop_set_def pop_def d_age_def ColumnMetadata_init_def
      validator_defs setter_defs sample_defs)

theorem from_dict_pops_recognized_keys_witness:
  "fst (from_dict sample_lib d_age) =
     Inr (ColumnMetadata_init\<lparr>name := PStr ''age'', alignment := PStr ''unknown'',
            measure := PStr ''unknown'', display_width := PInt 8, storage_width := PInt 8\<rparr>) \<and>
   snd (from_dict sample_lib d_age) = [(''extra'', PInt 1)] \<and>
   2 < length recognized_keys \<and>
   fst (run_steps (take 2 (from_dict_steps sample_lib)) (Inr ColumnMetadata_init, d_diagonal))
     = Inr ColumnMetadata_init \<and>
   fst (run_steps (take (Suc 2) (from_dict_steps sample_lib)) (Inr ColumnMetadata_init, d_diagonal))
     = Inl ValueError \<and>
   from_dict sample_lib d_diagonal = (Inl ValueError, [(''display_width'', PInt 8)])"
proof -
  have "snd (from_dict sample_lib d_age)
          = filter (\<lambda>kv. fst kv \<notin> set recognized_keys) d_age"
    using from_dict_pops_recognized_keys[of sample_lib d_age] from_dict_d_age by blast
  then have a: "snd (from_dict sample_lib d_age) = [(''extra'', PInt 1)]"
    by (simp add: d_age_def recognized_keys_def)
  have h1: "2 < length recognized_keys" by (simp add: recognized_keys_def)
  have h2: "fst (run_steps (take 2 (from_dict_steps sample_lib))
                  (Inr ColumnMetadata_init, d_diagonal)) = Inr ColumnMetadata_init"
    by (simp add: from_dict_steps_def pop_set_def pop_def d_diagonal_def ColumnMetadata_init_def
        validator_defs setter_defs sample_defs)
  have h3: "fst (run_steps (take (Suc 2) (from_dict_steps sample_lib))
                  (Inr ColumnMetadata_init, d_diagonal)) = Inl ValueError"
    by (simp add: from_dict_steps_def pop_set_def pop_def d_diagonal_def ColumnMetadata_init_def
        validator_defs setter_defs sample_defs)
  have "from_dict sample_lib d_diagonal
          = (Inl ValueError,
             filter (\<lambda>kv. fst kv \<notin> set (take (Suc 2) recognized_keys)) d_diagonal)"
    using from_dict_pops_recognized_keys[of sample_lib d_diagonal 2] h1 h2 h3 by blast
  then have b: "from_dict sample_lib d_diagonal = (Inl ValueError, [(''display_width'', PInt 8)])"
    by (simp add: d_diagonal_def recognized_keys_def)
  show ?thesis using from_dict_d_age a h1 h2 h3 b by blast
qed

text \<open>
  C10 as stated fails for a mapping whose alignment is outside the vocabulary: the
  \<^verbatim>\<open>alignment\<close> setter raises \<^verbatim>\<open>ValueError\<close>, and the recognized key
  \<^verbatim>\<open>display_width\<close>, popped only later, is still in the caller's dictionary.
\<close>

theorem from_dict_leaves_keys_after_error:
  "''display_width'' \<in> set recognized_keys \<and>
   ''display_width'' \<in> fst ` set d_diagonal \<and>
   fst (from_dict sample_lib d_diagonal) = Inl ValueError \<and>
   ''display_width'' \<in> fst ` set (snd (from_dict sample_lib d_diagonal))"
  by (simp add: from_dict_def pop_set_def pop_def d_diagonal_def ColumnMetadata_init_def
      validator_defs setter_defs sample_defs recognized_keys_def)

subsection \<open>What from\_pyreadstat\_metadata returns\<close>













subsection \<open>Claim C8: the column-not-found error of from\_pyreadstat\_metadata\<close>




subsection \<open>Claim C1: the note that to\_pyreadstat keeps\<close>

lemma split_on_length: "length (split_on c s) \<ge> 1"
  by (induction s) (auto split: list.splits)

lemma to_pyreadstat_Inr:
  assumes "to_pyreadstat L m = Inr r"
  shows "\<exists>nt cols. native_notes (md_notes m) = Inr nt \<and> column_metadata m = Some cols \<and>
           add_columns L cols
             (metadata_container_init
               \<lparr> mc_table_name := table_name m, mc_file_label := file_label m,
                 mc_file_encoding := file_encoding m, mc_notes := nt,
                 mc_rows := Some (rows m) \<rparr>) = Inr r"
proof -
  from assms obtain nt where nt: "native_notes (md_notes m) = Inr nt"
    by (cases "native_notes (md_notes m)") (simp_all add: to_pyreadstat_def)
  from assms nt obtain cols where c: "column_metadata m = Some cols"
    by (cases "column_metadata m") (simp_all add: to_pyreadstat_def Let_def)
  from assms nt c show ?thesis by (simp add: to_pyreadstat_def Let_def)
qed

text \<open>
  C1 says that for notes of several lines \<^verbatim>\<open>Metadata.to_pyreadstat()\<close> stores the first
  line in the native container. What the code stores: whenever the notes are a string
  that splits at newlines into more than one part and the call returns, the native
  notes are the first character of the string.
\<close>

theorem to_pyreadstat_notes_first_character:
  assumes "md_notes m = PStr s" and "length (split_on newline s) > 1"
    and "to_pyreadstat L m = Inr r"
  shows "mc_notes r = PStr [hd s]"
proof -
  have ne: "s \<noteq> []" using assms(2) by auto
  have nn: "native_notes (md_notes m) = Inr (PStr [hd s])"
    using assms(1,2) ne by (simp add: native_notes_def)
  from to_pyreadstat_Inr[OF assms(3)] nn obtain cols where
    "add_columns L cols
      (metadata_container_init
         \<lparr> mc_table_name := table_name m, mc_file_label := file_label m,
           mc_file_encoding := file_encoding m, mc_notes := PStr [hd s],
           mc_rows := Some (rows m) \<rparr>) = Inr r"
    by auto
  from add_columns_scalars[OF this] show ?thesis by (simp add: same_scalars_def)
qed

text \<open>
  The theorem at the notes \<^verbatim>\<open>line1\<close>, newline, \<^verbatim>\<open>line2\<close>: the native notes are
  \<^verbatim>\<open>l\<close>, and the first line is \<^verbatim>\<open>line1\<close>.
\<close>

theorem to_pyreadstat_notes_first_character_witness:
  "md_notes m_two_lines = PStr (''line1'' @ [newline] @ ''line2'') \<and>
   length (split_on newline (''line1'' @ [newline] @ ''line2'')) > 1 \<and>
   map_sum id mc_notes (to_pyreadstat sample_lib m_two_lines) = Inr (PStr ''l'') \<and>
   hd (split_on newline (''line1'' @ [newline] @ ''line2'')) = ''line1''"
proof -
  have h1: "md_notes m_two_lines = PStr (''line1'' @ [newline] @ ''line2'')"
    by (simp add: m_two_lines_def)
  have h2: "length (split_on newline (''line1'' @ [newline] @ ''line2'')) > 1"
    by (simp add: newline_def)
  have "\<exists>r. to_pyreadstat sample_lib m_two_lines = Inr r"
    by (simp add: m_two_lines_def newline_def c_age_def native_defs)
  then obtain r where h3: "to_pyreadstat sample_lib m_two_lines = Inr r" by blast
  have "mc_notes r = PStr [hd (''line1'' @ [newline] @ ''line2'')]"
    by (rule to_pyreadstat_notes_first_character[OF h1 h2 h3])
  then have "map_sum id mc_notes (to_pyreadstat sample_lib m_two_lines) = Inr (PStr ''l'')"
    by (simp add: h3)
  moreover have "hd (split_on newline (''line1'' @ [newline] @ ''line2'')) = ''line1''"
    by (simp add: newline_def)
  ultimately show ?thesis using h1 h2 by blast
qed

subsection \<open>Claim C2: to\_dict followed by from\_dict\<close>

text \<open>
  C2 says that \<^verbatim>\<open>ColumnMetadata.from_dict(c.to_dict())\<close> succeeds and equals \<open>c\<close> for
  every valid instance, the one left at its construction defaults included. What the
  code does for that instance: \<^verbatim>\<open>__init__\<close> leaves both widths at \<^verbatim>\<open>None\<close>, \<^verbatim>\<open>to_dict\<close>
  copies them, and the \<^verbatim>\<open>display_width\<close> setter, which does not allow an empty value,
  raises \<^verbatim>\<open>EmptyValueError\<close>.
\<close>

theorem from_dict_to_dict_defaults_raises:
  "fst (from_dict L (to_dict ColumnMetadata_init)) = Inl (ValidationError EmptyValueError)"
  by (simp add: from_dict_def to_dict_def pop_set_def pop_def ColumnMetadata_init_def
      validator_defs setter_defs)

text \<open>The theorem with the sample library functions.\<close>

theorem from_dict_to_dict_defaults_raises_witness:
  "fst (from_dict sample_lib (to_dict ColumnMetadata_init)) = Inl (ValidationError EmptyValueError)"
  by (rule from_dict_to_dict_defaults_raises)

subsection \<open>Claim C3: from\_pyreadstat followed by to\_pyreadstat\<close>

lemma to_pyreadstat_rows:
  assumes "to_pyreadstat L m = Inr r"
  shows "number_rows r = PNone \<and> mc_rows r = Some (rows m)"
proof -
  from to_pyreadstat_Inr[OF assms] obtain nt cols where
    "add_columns L cols
      (metadata_container_init
         \<lparr> mc_table_name := table_name m, mc_file_label := file_label m,
           mc_file_encoding := file_encoding m, mc_notes := nt,
           mc_rows := Some (rows m) \<rparr>) = Inr r"
    by blast
  from add_columns_scalars[OF this] show ?thesis
    by (simp add: same_scalars_def metadata_container_init_def)
qed

lemma to_pyreadstat_no_columns:
  assumes "column_metadata m = None"
  shows "to_pyreadstat L m \<noteq> Inr r"
proof
  assume "to_pyreadstat L m = Inr r"
  from to_pyreadstat_Inr[OF this] assms show False by auto
qed

lemma from_pyreadstat_no_columns:
  assumes "column_names n = []" and "from_pyreadstat L n = Inr m"
  shows "column_metadata m = None"
proof -
  from assms(2) obtain i5 where "set_column_metadata L (Columns []) i5 = Inr m"
    by (auto simp: from_pyreadstat_def and_then_Inr assms(1))
  then show ?thesis by (auto simp: set_column_metadata_def)
qed

text \<open>
  C3 says that \<^verbatim>\<open>Metadata.from_pyreadstat(n).to_pyreadstat()\<close> never raises and gives
  back every field of \<open>n\<close>, the row count included, also when \<open>n\<close> has no columns. What the
  code does: whenever the round trip returns a container, its \<^verbatim>\<open>number_rows\<close> is \<^verbatim>\<open>None\<close>
  (the count is written to an attribute \<^verbatim>\<open>rows\<close> instead); and when \<open>n\<close> has no columns
  the round trip never returns a container.
\<close>

theorem from_pyreadstat_to_pyreadstat_loses_rows:
  "(\<forall>r. and_then (from_pyreadstat L n) (to_pyreadstat L) = Inr r \<longrightarrow>
        number_rows r = PNone) \<and>
   (column_names n = [] \<longrightarrow>
      (\<forall>r. and_then (from_pyreadstat L n) (to_pyreadstat L) \<noteq> Inr r))"
proof (intro conjI allI impI)
  fix r
  assume "and_then (from_pyreadstat L n) (to_pyreadstat L) = Inr r"
  then obtain m where "to_pyreadstat L m = Inr r" by (auto simp: and_then_Inr)
  from to_pyreadstat_rows[OF this] show "number_rows r = PNone" by simp
next
  fix r
  assume e: "column_names n = []"
  show "and_then (from_pyreadstat L n) (to_pyreadstat L) \<noteq> Inr r"
  proof
    assume "and_then (from_pyreadstat L n) (to_pyreadstat L) = Inr r"
    then obtain m where m: "from_pyreadstat L n = Inr m" and t: "to_pyreadstat L m = Inr r"
      by (auto simp: and_then_Inr)
    from from_pyreadstat_no_columns[OF e m] to_pyreadstat_no_columns[of m L r] t
    show False by simp
  qed
qed

text \<open>
  The theorem at the example container of ten rows, whose round trip has no
  \<^verbatim>\<open>number_rows\<close>, and at a container without columns, whose round trip raises
  \<^verbatim>\<open>TypeError\<close> (the loop over a \<^verbatim>\<open>column_metadata\<close> that is \<^verbatim>\<open>None\<close>).
\<close>

lemma from_pyreadstat_n_age:
  "from_pyreadstat sample_lib n_age =
     Inr (Metadata_init\<lparr>column_metadata := Some [(PStr ''age'', c_age)], rows := PInt 10,
            file_encoding := PStr ''UTF-8''\<rparr>)"
  by (simp add: from_pyreadstat_def n_age_def metadata_container_init_def Metadata_init_def
      metadata_setter_defs validator_defs setter_defs sample_defs from_pyreadstat_metadata_def
      list_has_def py_eq_def ColumnMetadata_init_def c_age_def from_native_range_def)

theorem from_pyreadstat_to_pyreadstat_loses_rows_witness:
  "number_rows n_age = PInt 10 \<and>
   map_sum id number_rows (and_then (from_pyreadstat sample_lib n_age) (to_pyreadstat sample_lib))
     = Inr PNone \<and>
   column_names n_no_columns = [] \<and>
   and_then (from_pyreadstat sample_lib n_no_columns) (to_pyreadstat sample_lib) = Inl TypeError"
proof -
  have "\<exists>r. and_then (from_pyreadstat sample_lib n_age) (to_pyreadstat sample_lib) = Inr r"
    by (simp add: from_pyreadstat_n_age Metadata_init_def c_age_def native_defs)
  then obtain r where
    h: "and_then (from_pyreadstat sample_lib n_age) (to_pyreadstat sample_lib) = Inr r"
    by blast
  have "number_rows r = PNone"
    using from_pyreadstat_to_pyreadstat_loses_rows[of sample_lib n_age] h by blast
  then have a: "map_sum id number_rows
      (and_then (from_pyreadstat sample_lib n_age) (to_pyreadstat sample_lib)) = Inr PNone"
    by (simp add: h)
  have b: "number_rows n_age = PInt 10"
    by (simp add: n_age_def)
  have c: "column_names n_no_columns = []"
    by (simp add: n_no_columns_def metadata_container_init_def)
  have d: "and_then (from_pyreadstat sample_lib n_no_columns) (to_pyreadstat sample_lib)
             = Inl TypeError"
    by (simp add: from_pyreadstat_def n_no_columns_def metadata_container_init_def
        Metadata_init_def metadata_setter_defs validator_defs to_pyreadstat_def native_notes_def)
  show ?thesis using a b c d by blast
qed

subsection \<open>Claim C7: Metadata.from\_dict with plain column mappings\<close>

text \<open>
  C7 says that \<^verbatim>\<open>Metadata.from_dict\<close> builds a \<^verbatim>\<open>ColumnMetadata\<close> from every plain
  sub-mapping of \<^verbatim>\<open>column_metadata\<close>. What the code does: for a mapping that holds only
  \<^verbatim>\<open>column_metadata\<close>, a dict whose first key is a valid name with a value that is not a
  \<^verbatim>\<open>ColumnMetadata\<close>, the call raises \<^verbatim>\<open>KeyError\<close>.
\<close>

theorem Metadata_from_dict_plain_column_raises:
  assumes "k \<noteq> []" and "parse_target L k"
  shows "Metadata_from_dict L
           \<lparr> d_notes = None, d_table_name = None, d_file_label = None, d_rows = None,
             d_file_encoding = None,
             d_column_metadata = Some (Columns ((PStr k, Plain x) # rest)) \<rparr> = Inl KeyError"
  using assms
  by (simp add: Metadata_from_dict_def Metadata_init_def metadata_setter_defs validator_defs
      dict_has_def)

text \<open>The theorem at the column \<^verbatim>\<open>age\<close> given as a plain mapping.\<close>

theorem Metadata_from_dict_plain_column_raises_witness:
  "''age'' \<noteq> [] \<and> parse_target sample_lib ''age'' \<and>
   Metadata_from_dict sample_lib md_plain_column = Inl KeyError"
proof -
  have h1: "''age'' \<noteq> []" by simp
  have h2: "parse_target sample_lib ''age''" by (simp add: sample_defs)
  have "Metadata_from_dict sample_lib md_plain_column = Inl KeyError"
    unfolding md_plain_column_def
    by (rule Metadata_from_dict_plain_column_raises[OF h1 h2])
  with h1 h2 show ?thesis by blast
qed

subsection \<open>Claim C4: the layout gate\<close>

text \<open>
  C4 says that \<^verbatim>\<open>to_json\<close>, \<^verbatim>\<open>to_yaml\<close>, \<^verbatim>\<open>to_dict\<close>, \<^verbatim>\<open>from_json\<close> and \<^verbatim>\<open>from_yaml\<close>
  raise \<^verbatim>\<open>InvalidLayoutError\<close> for a layout other than \<^verbatim>\<open>records\<close> and \<^verbatim>\<open>table\<close>, before
  any read. What the code does for such a layout: \<^verbatim>\<open>from_json\<close> raises \<^verbatim>\<open>NameError\<close>,
  and so does \<^verbatim>\<open>from_yaml\<close> for a text that loads, after loading it; \<^verbatim>\<open>to_dict\<close>, and
  \<^verbatim>\<open>to_json\<close> and \<^verbatim>\<open>to_yaml\<close> with an accepted target, raise \<^verbatim>\<open>InvalidLayoutError\<close>.
  In each case the state is left as it was: nothing has been read.
\<close>

theorem layout_gate:
  assumes "layout \<notin> set [''records'', ''table'']"
  shows "from_json L X as_json t layout compress orient w = (Inl NameError, w) \<and>
         read_to_dict L X data layout dp opts w = (Inl InvalidLayoutError, w) \<and>
         (\<not> target_truthy t \<or> is_pathlike t \<or> is_stringIO t \<longrightarrow>
            to_json L X data t layout dp opts w = (Inl InvalidLayoutError, w) \<and>
            to_yaml L X data t layout dp opts w = (Inl InvalidLayoutError, w)) \<and>
         (s \<noteq> [] \<and> \<not> is_file w (SStr s) \<and>
          and_then (yaml_safe_load X s) (json_dumps X) = Inr j \<longrightarrow>
            from_yaml L X (SStr s) t layout compress orient w = (Inl NameError, w))"
proof -
  have a: "from_json L X js t layout compress orient w = (Inl NameError, w)" for js
    using assms by (simp add: from_json_def io_then_def io_pure_def)
  have b: "read_to_dict L X data layout dp opts w = (Inl InvalidLayoutError, w)"
    using assms by (simp add: read_to_dict_def io_then_def io_pure_def check_layout_def)
  have c: "to_json L X data t layout dp opts w = (Inl InvalidLayoutError, w)"
    if "\<not> target_truthy t \<or> is_pathlike t \<or> is_stringIO t"
    using assms that
    by (auto simp: to_json_def io_then_def io_pure_def check_layout_def check_text_target_def)
  have d: "to_yaml L X data t layout dp opts w = (Inl InvalidLayoutError, w)"
    if "\<not> target_truthy t \<or> is_pathlike t \<or> is_stringIO t"
    using assms that
    by (auto simp: to_yaml_def io_then_def io_pure_def check_layout_def check_text_target_def)
  have e: "from_yaml L X (SStr s) t layout compress orient w = (Inl NameError, w)"
    if "s \<noteq> []" "\<not> is_file w (SStr s)"
       "and_then (yaml_safe_load X s) (json_dumps X) = Inr j"
    using that a[of j] by (simp add: from_yaml_def source_is_bytesIO_def)
  show ?thesis using a b c d e by blast
qed

text \<open>The theorem at the layout \<^verbatim>\<open>bogus\<close>.\<close>

theorem layout_gate_witness:
  "''bogus'' \<notin> set [''records'', ''table''] \<and>
   from_json sample_lib sample_extern ''[30, 41]'' TNone ''bogus'' False None empty_world
     = (Inl NameError, empty_world) \<and>
   \<not> target_truthy TNone \<and>
   to_json sample_lib sample_extern (SBytes ''SAV'') TNone ''bogus'' 10 default_opts empty_world
     = (Inl InvalidLayoutError, empty_world) \<and>
   reads empty_world = 0"
proof -
  have h: "''bogus'' \<notin> set [''records'', ''table'']" by simp
  have t: "\<not> target_truthy TNone" by (simp add: target_truthy_def)
  show ?thesis
    using layout_gate[OF h, of sample_lib sample_extern "''[30, 41]''" TNone False None
        empty_world "SBytes ''SAV''" 10 default_opts] h t
    by (simp add: empty_world_def)
qed

subsection \<open>Claim C5: the temporary file of \_read\_spss\<close>

lemma default_validated:
  "lift (validators_integer L (limit default_opts) True False (Some 0)) = Inr PNone"
  "lift (validators_integer L (offset default_opts) False False (Some 0)) = Inr (PInt 0)"
  "validated_variables (exclude_variables default_opts) = Inr PNone"
  "validated_variables (include_variables default_opts) = Inr PNone"
  by (simp_all add: default_opts_def validator_defs validated_variables_def)

text \<open>
  C5 says that the temporary file that stages data given as bytes or as a \<^verbatim>\<open>BytesIO\<close> is
  deleted on every path. What the code does, with the default options: when the codec
  raises for the bytes, the error propagates and the temporary file, holding the bytes,
  is still there; and for a \<^verbatim>\<open>BytesIO\<close> the write into the temporary file raises
  \<^verbatim>\<open>TypeError\<close> and the empty temporary file is still there.
\<close>

theorem read_spss_leaves_temp_file:
  assumes "read_sav X b (codec_args default_opts PNone PNone (PInt 0)) = Inl e"
  shows "read_spss L X (SBytes b) default_opts w =
           (Inl e, w\<lparr> files := (files w)(TempPath (next_temp w) \<mapsto> b),
                       next_temp := Suc (next_temp w), reads := Suc (reads w) \<rparr>) \<and>
         read_spss L X (SBytesIO a) default_opts w =
           (Inl TypeError, w\<lparr> files := (files w)(TempPath (next_temp w) \<mapsto> []),
                               next_temp := Suc (next_temp w) \<rparr>)"
  using assms
  by (simp add: read_spss_def default_validated io_then_def io_pure_def is_file_def
      source_is_bytes_def source_is_bytesIO_def read_staged_def create_temp_def
      call_read_sav_def write_file_def)

text \<open>
  The theorem at bytes that the sample codec rejects: the temporary file, absent before
  the call, holds them after it.
\<close>

theorem read_spss_leaves_temp_file_witness:
  "read_sav sample_extern ''not a sav file'' (codec_args default_opts PNone PNone (PInt 0))
     = Inl (CodecError ''not a sav file'') \<and>
   fst (read_spss sample_lib sample_extern (SBytes ''not a sav file'') default_opts empty_world)
     = Inl (CodecError ''not a sav file'') \<and>
   files (snd (read_spss sample_lib sample_extern (SBytes ''not a sav file'') default_opts
                 empty_world)) (TempPath 0) = Some ''not a sav file'' \<and>
   files empty_world (TempPath 0) = None"
proof -
  have h: "read_sav sample_extern ''not a sav file'' (codec_args default_opts PNone PNone (PInt 0))
             = Inl (CodecError ''not a sav file'')"
    by (simp add: sample_extern_def)
  have "read_spss sample_lib sample_extern (SBytes ''not a sav file'') default_opts empty_world =
          (Inl (CodecError ''not a sav file''),
           empty_world\<lparr> files := (files empty_world)(TempPath (next_temp empty_world) \<mapsto>
                                      ''not a sav file''),
                       next_temp := Suc (next_temp empty_world),
                       reads := Suc (reads empty_world) \<rparr>)"
    using read_spss_leaves_temp_file[OF h, of sample_lib empty_world] by blast
  then show ?thesis using h by (simp add: empty_world_def)
qed

subsection \<open>What each conversion does with its target\<close>

text \<open>
  One lemma for each function that takes a target: what it returns and the state it
  leaves for each kind of target, when the reading and the serialization succeed.
  \<^verbatim>\<open>from_csv\<close>, \<^verbatim>\<open>from_dict\<close>, \<^verbatim>\<open>from_json\<close>, \<^verbatim>\<open>from_yaml\<close> and \<^verbatim>\<open>from_excel\<close> end with
  the call of \<^verbatim>\<open>from_dataframe\<close> on the frame they read, with the target and without
  metadata.
\<close>

lemma read_spss_success_removes_temp:
  assumes "read_sav X b (codec_args default_opts PNone PNone (PInt 0)) = Inr (df, n)"
    and "from_pyreadstat L n = Inr m"
  shows "read_spss L X (SBytes b) default_opts w =
           (Inr (df, m), w\<lparr> files := (files w)(TempPath (next_temp w) := None),
                              next_temp := Suc (next_temp w), reads := Suc (reads w) \<rparr>)"
  using assms
  by (simp add: read_spss_def default_validated io_then_def io_pure_def is_file_def
      source_is_bytes_def source_is_bytesIO_def read_staged_def create_temp_def
      call_read_sav_def write_file_def os_remove_def)

lemma to_csv_targets:
  assumes "read_spss L X data opts w = (Inr (df, md), w1)" and "df_to_csv X df csv = Inr text"
  shows "to_csv L X data TNone csv opts w = (Inr (RText text), w1)"
    and "p \<noteq> [] \<Longrightarrow>
           to_csv L X data (TStr p) csv opts w = (Inr RNone, write_file (UserPath p) text w1)"
    and "to_csv L X data (TStringIO a) csv opts w = (Inr RNone, object_write a text w1)"
  using assms by (simp_all add: to_csv_def io_defs write_to_def)

lemma to_json_targets:
  assumes "read_spss L X data opts w = (Inr (df, md), w1)"
    and "df_to_json X df layout dp = Inr text" and "layout \<in> set [''records'', ''table'']"
  shows "to_json L X data TNone layout dp opts w = (Inr (RText text), w1)"
    and "p \<noteq> [] \<Longrightarrow>
           to_json L X data (TStr p) layout dp opts w
             = (Inr RNone, write_file (UserPath p) text w1)"
    and "to_json L X data (TStringIO a) layout dp opts w = (Inr RNone, object_write a text w1)"
  using assms by (auto simp: to_json_def io_defs write_to_def)

lemma to_yaml_without_target:
  assumes "read_spss L X data opts w = (Inr (df, md), w1)"
    and "df_to_json X df layout dp = Inr text" and "layout \<in> set [''records'', ''table'']"
    and "json_loads X text = Inr v" and "yaml_dump X v = Inr y"
  shows "to_yaml L X data TNone layout dp opts w = (Inr (RText y), w1)"
  using assms by (auto simp: to_yaml_def io_defs)

lemma to_excel_targets:
  assumes "read_spss L X data opts w = (Inr (df, md), w1)" and "df_to_excel X df xl = Inr d"
  shows "to_excel L X data TNone xl opts w =
           (Inr (RObject (next_obj w1)),
            w1\<lparr> heap := (heap w1)(next_obj w1 \<mapsto> \<lparr> content = d, pos = length d \<rparr>),
                next_obj := Suc (next_obj w1) \<rparr>)"
    and "p \<noteq> [] \<Longrightarrow>
           to_excel L X data (TStr p) xl opts w = (Inr RNone, write_file (UserPath p) d w1)"
    and "to_excel L X data (TExcelWriter a) xl opts w = (Inr RNone, object_write a d w1)"
  using assms
  by (simp_all add: to_excel_def io_defs write_to_def new_BytesIO_def object_write_def
      buffer_write_def)

lemma from_dataframe_targets:
  assumes "as_Metadata L metadata = Inr m"
    and "(case m of None \<Rightarrow> Inr None
          | Some m' \<Rightarrow> and_then (to_pyreadstat L m') (\<lambda>n. Inr (Some (labels_of n))))
           = Inr labels"
    and "write_sav X df compress labels = Inr b"
  shows "from_dataframe L X df TNone metadata compress w =
           (Inr (RObject (next_obj w)),
            w\<lparr> files := (files w)(TempPath (next_temp w) := None),
               heap := (heap w)(next_obj w \<mapsto> \<lparr> content = b, pos = 0 \<rparr>),
               next_temp := Suc (next_temp w), next_obj := Suc (next_obj w) \<rparr>)"
    and "p \<noteq> [] \<Longrightarrow>
           from_dataframe L X df (TStr p) metadata compress w
             = (Inr RNone, write_file (UserPath p) b w)"
    and "from_dataframe L X df (TBytesIO a) metadata compress w =
           (Inr (RObject a),
            (object_write a b (w\<lparr> next_temp := Suc (next_temp w) \<rparr>))
               \<lparr> files := (files w)(TempPath (next_temp w) := None) \<rparr>)"
  using assms
  by (simp_all add: from_dataframe_def io_defs call_write_sav_def with_temp_def
      create_temp_def read_temp_def write_file_def new_BytesIO_def object_write_def)

lemma from_dataframe_without_metadata:
  assumes "write_sav X df compress None = Inr b"
  shows "from_dataframe L X df TNone MdNone compress w =
           (Inr (RObject (next_obj w)),
            w\<lparr> files := (files w)(TempPath (next_temp w) := None),
               heap := (heap w)(next_obj w \<mapsto> \<lparr> content = b, pos = 0 \<rparr>),
               next_temp := Suc (next_temp w), next_obj := Suc (next_obj w) \<rparr>)"
    and "p \<noteq> [] \<Longrightarrow>
           from_dataframe L X df (TStr p) MdNone compress w
             = (Inr RNone, write_file (UserPath p) b w)"
    and "from_dataframe L X df (TBytesIO a) MdNone compress w =
           (Inr (RObject a),
            (object_write a b (w\<lparr> next_temp := Suc (next_temp w) \<rparr>))
               \<lparr> files := (files w)(TempPath (next_temp w) := None) \<rparr>)"
proof -
  have m: "as_Metadata L MdNone = Inr None" by (simp add: as_Metadata_def)
  have l: "(case None of None \<Rightarrow> Inr None
            | Some m' \<Rightarrow> and_then (to_pyreadstat L m') (\<lambda>n. Inr (Some (labels_of n))))
           = (Inr None :: pyerr + sav_labels option)" by simp
  show "from_dataframe L X df TNone MdNone compress w =
           (Inr (RObject (next_obj w)),
            w\<lparr> files := (files w)(TempPath (next_temp w) := None),
               heap := (heap w)(next_obj w \<mapsto> \<lparr> content = b, pos = 0 \<rparr>),
               next_temp := Suc (next_temp w), next_obj := Suc (next_obj w) \<rparr>)"
    by (rule from_dataframe_targets(1)[OF m l assms])
  show "p \<noteq> [] \<Longrightarrow>
           from_dataframe L X df (TStr p) MdNone compress w
             = (Inr RNone, write_file (UserPath p) b w)"
    by (rule from_dataframe_targets(2)[OF m l assms])
  show "from_dataframe L X df (TBytesIO a) MdNone compress w =
           (Inr (RObject a),
            (object_write a b (w\<lparr> next_temp := Suc (next_temp w) \<rparr>))
               \<lparr> files := (files w)(TempPath (next_temp w) := None) \<rparr>)"
    by (rule from_dataframe_targets(3)[OF m l assms])
qed

lemma from_csv_is_from_dataframe:
  assumes "read_csv X as_csv delimiter = Inr dfr" and "drop_unnamed dfr = Inr df0"
  shows "from_csv L X as_csv t compress delimiter w = from_dataframe L X df0 t MdNone compress w"
  using assms by (simp add: from_csv_def io_then_def io_pure_def)

lemma write_from_dict_is_from_dataframe:
  assumes "DataFrame_from_dict X as_dict = Inr df0"
  shows "write_from_dict L X as_dict t compress w = from_dataframe L X df0 t MdNone compress w"
  using assms by (simp add: write_from_dict_def io_then_def io_pure_def)

lemma from_json_is_from_dataframe:
  assumes "layout \<in> set [''records'', ''table'']"
    and "read_json X as_json (get_or orient layout) = Inr df0"
  shows "from_json L X as_json t layout compress orient w
           = from_dataframe L X df0 t MdNone compress w"
  using assms by (auto simp: from_json_def io_then_def io_pure_def)

lemma from_yaml_is_from_dataframe:
  assumes "layout \<in> set [''records'', ''table'']"
    and "\<not> is_file w (SStr s)" and "s \<noteq> []"
    and "and_then (yaml_safe_load X s) (json_dumps X) = Inr j"
    and "read_json X j (get_or orient layout) = Inr df0"
  shows "from_yaml L X (SStr s) t layout compress orient w
           = from_dataframe L X df0 t MdNone compress w"
  using assms(2,3,4) from_json_is_from_dataframe[OF assms(1,5)]
  by (simp add: from_yaml_def source_is_bytesIO_def)

lemma from_excel_is_from_dataframe:
  assumes "read_excel X as_excel = Inr dfr" and "drop_unnamed dfr = Inr df0"
  shows "from_excel L X as_excel t compress w = from_dataframe L X df0 t MdNone compress w"
  using assms by (simp add: from_excel_def io_then_def io_pure_def)

lemma read_sample:
  "read_spss sample_lib sample_extern (SBytes ''SAV'') default_opts w =
     (Inr (df_age, Metadata_init\<lparr>column_metadata := Some [(PStr ''age'', c_age)],
                          rows := PInt 10, file_encoding := PStr ''UTF-8''\<rparr>),
      w\<lparr> files := (files w)(TempPath (next_temp w) := None),
         next_temp := Suc (next_temp w), reads := Suc (reads w) \<rparr>)"
proof -
  have rs: "read_sav sample_extern ''SAV'' (codec_args default_opts PNone PNone (PInt 0))
              = Inr (df_age, n_age)"
    by (simp add: sample_extern_def)
  show ?thesis by (rule read_spss_success_removes_temp[OF rs from_pyreadstat_n_age])
qed

lemma to_excel_sample_buffer:
  "fst (to_excel sample_lib sample_extern (SBytes ''SAV'') (TBytesIO a) default_excel
          default_opts w) = Inr (RObject (next_obj w)) \<and>
   heap (snd (to_excel sample_lib sample_extern (SBytes ''SAV'') (TBytesIO a) default_excel
          default_opts w))
     = (heap w)(next_obj w \<mapsto> \<lparr> content = ''XLSX'', pos = length ''XLSX'' \<rparr>)"
proof -
  have x: "df_to_excel sample_extern df_age default_excel = Inr ''XLSX''"
    by (simp add: sample_extern_def)
  show ?thesis
    by (simp add: to_excel_def io_defs read_sample new_BytesIO_def write_to_def
        object_write_def buffer_write_def x)
qed

subsection \<open>Claim C6: what a conversion does with its target\<close>

text \<open>
  C6, as amended. When the reading and the serialization succeed, and \<open>p\<close> is a
  non-empty path:
  \<^item> \<^verbatim>\<open>to_csv\<close> and \<^verbatim>\<open>to_json\<close> return the text when the target is \<^verbatim>\<open>None\<close>; given the
    path they write the text to that file and return \<^verbatim>\<open>None\<close>; given a \<^verbatim>\<open>StringIO\<close>
    they write into it and return \<^verbatim>\<open>None\<close>;
  \<^item> \<^verbatim>\<open>to_yaml\<close> returns the YAML text when the target is \<^verbatim>\<open>None\<close>;
  \<^item> \<^verbatim>\<open>to_excel\<close> returns a new \<^verbatim>\<open>BytesIO\<close> that holds the workbook when the target is
    \<^verbatim>\<open>None\<close>; given the path it writes that file and returns \<^verbatim>\<open>None\<close>; given an
    \<^verbatim>\<open>ExcelWriter\<close> it writes into it and returns \<^verbatim>\<open>None\<close>;
  \<^item> \<^verbatim>\<open>from_dataframe\<close>, with any metadata it accepts, and \<^verbatim>\<open>from_csv\<close>, \<^verbatim>\<open>from_dict\<close>,
    \<^verbatim>\<open>from_json\<close> (layout \<^verbatim>\<open>records\<close> or \<^verbatim>\<open>table\<close>), \<^verbatim>\<open>from_yaml\<close> (YAML given as a
    non-empty text that names no file, same layouts) and \<^verbatim>\<open>from_excel\<close> return a new
    \<^verbatim>\<open>BytesIO\<close> that holds the dataset's bytes when the target is \<^verbatim>\<open>None\<close>; given the
    path they write the dataset to that file and return \<^verbatim>\<open>None\<close>; given a \<^verbatim>\<open>BytesIO\<close>
    they write into that buffer and return that same buffer.
\<close>

theorem target_contract:
  assumes "p \<noteq> []"
  shows "(read_spss L X data opts w = (Inr (df, md), w1) \<and>
          df_to_csv X df csv = Inr csv_text
          \<longrightarrow>
           to_csv L X data TNone csv opts w = (Inr (RText csv_text), w1) \<and>
           to_csv L X data (TStr p) csv opts w
             = (Inr RNone, write_file (UserPath p) csv_text w1) \<and>
           to_csv L X data (TStringIO a) csv opts w = (Inr RNone, object_write a csv_text w1)) \<and>
         (read_spss L X data opts w = (Inr (df, md), w1) \<and>
          df_to_json X df layout dp = Inr json_text \<and>
          layout \<in> set [''records'', ''table'']
          \<longrightarrow>
           to_json L X data TNone layout dp opts w = (Inr (RText json_text), w1) \<and>
           to_json L X data (TStr p) layout dp opts w
             = (Inr RNone, write_file (UserPath p) json_text w1) \<and>
           to_json L X data (TStringIO a) layout dp opts w
             = (Inr RNone, object_write a json_text w1)) \<and>
         (read_spss L X data opts w = (Inr (df, md), w1) \<and>
          df_to_json X df layout dp = Inr json_text \<and>
          layout \<in> set [''records'', ''table''] \<and>
          json_loads X json_text = Inr loaded \<and>
          yaml_dump X loaded = Inr yaml_text
          \<longrightarrow>
           to_yaml L X data TNone layout dp opts w = (Inr (RText yaml_text), w1)) \<and>
         (read_spss L X data opts w = (Inr (df, md), w1) \<and>
          df_to_excel X df xl = Inr xlsx
          \<longrightarrow>
           to_excel L X data TNone xl opts w =
             (Inr (RObject (next_obj w1)),
              w1\<lparr> heap := (heap w1)(next_obj w1 \<mapsto> \<lparr> content = xlsx, pos = length xlsx \<rparr>),
                  next_obj := Suc (next_obj w1) \<rparr>) \<and>
           to_excel L X data (TStr p) xl opts w
             = (Inr RNone, write_file (UserPath p) xlsx w1) \<and>
           to_excel L X data (TExcelWriter a) xl opts w = (Inr RNone, object_write a xlsx w1)) \<and>
         (as_Metadata L metadata = Inr m \<and>
          (case m of None \<Rightarrow> Inr None
           | Some m' \<Rightarrow> and_then (to_pyreadstat L m') (\<lambda>n. Inr (Some (labels_of n))))
            = Inr labels \<and>
          write_sav X df' compress labels = Inr sav
          \<longrightarrow>
           from_dataframe L X df' TNone metadata compress w =
             (Inr (RObject (next_obj w)),
              w\<lparr> files := (files w)(TempPath (next_temp w) := None),
                 heap := (heap w)(next_obj w \<mapsto> \<lparr> content = sav, pos = 0 \<rparr>),
                 next_temp := Suc (next_temp w), next_obj := Suc (next_obj w) \<rparr>) \<and>
           from_dataframe L X df' (TStr p) metadata compress w
             = (Inr RNone, write_file (UserPath p) sav w) \<and>
           from_dataframe L X df' (TBytesIO a) metadata compress w =
             (Inr (RObject a),
              (object_write a sav (w\<lparr> next_temp := Suc (next_temp w) \<rparr>))
                 \<lparr> files := (files w)(TempPath (next_temp w) := None) \<rparr>)) \<and>
         (read_csv X as_csv delimiter = Inr dfr \<and>
          drop_unnamed dfr = Inr df0 \<and>
          write_sav X df0 compress None = Inr sav0
          \<longrightarrow>
           from_csv L X as_csv TNone compress delimiter w =
             (Inr (RObject (next_obj w)),
              w\<lparr> files := (files w)(TempPath (next_temp w) := None),
                 heap := (heap w)(next_obj w \<mapsto> \<lparr> content = sav0, pos = 0 \<rparr>),
                 next_temp := Suc (next_temp w), next_obj := Suc (next_obj w) \<rparr>) \<and>
           from_csv L X as_csv (TStr p) compress delimiter w
             = (Inr RNone, write_file (UserPath p) sav0 w) \<and>
           from_csv L X as_csv (TBytesIO a) compress delimiter w =
             (Inr (RObject a),
              (object_write a sav0 (w\<lparr> next_temp := Suc (next_temp w) \<rparr>))
                 \<lparr> files := (files w)(TempPath (next_temp w) := None) \<rparr>)) \<and>
         (DataFrame_from_dict X as_dict = Inr df0 \<and>
          write_sav X df0 compress None = Inr sav0
          \<longrightarrow>
           write_from_dict L X as_dict TNone compress w =
             (Inr (RObject (next_obj w)),
              w\<lparr> files := (files w)(TempPath (next_temp w) := None),
                 heap := (heap w)(next_obj w \<mapsto> \<lparr> content = sav0, pos = 0 \<rparr>),
                 next_temp := Suc (next_temp w), next_obj := Suc (next_obj w) \<rparr>) \<and>
           write_from_dict L X as_dict (TStr p) compress w
             = (Inr RNone, write_file (UserPath p) sav0 w) \<and>
           write_from_dict L X as_dict (TBytesIO a) compress w =
             (Inr (RObject a),
              (object_write a sav0 (w\<lparr> next_temp := Suc (next_temp w) \<rparr>))
                 \<lparr> files := (files w)(TempPath (next_temp w) := None) \<rparr>)) \<and>
         (layout \<in> set [''records'', ''table''] \<and>
          read_json X as_json (get_or orient layout) = Inr df0 \<and>
          write_sav X df0 compress None = Inr sav0
          \<longrightarrow>
           from_json L X as_json TNone layout compress orient w =
             (Inr (RObject (next_obj w)),
              w\<lparr> files := (files w)(TempPath (next_temp w) := None),
                 heap := (heap w)(next_obj w \<mapsto> \<lparr> content = sav0, pos = 0 \<rparr>),
                 next_temp := Suc (next_temp w), next_obj := Suc (next_obj w) \<rparr>) \<and>
           from_json L X as_json (TStr p) layout compress orient w
             = (Inr RNone, write_file (UserPath p) sav0 w) \<and>
           from_json L X as_json (TBytesIO a) layout compress orient w =
             (Inr (RObject a),
              (object_write a sav0 (w\<lparr> next_temp := Suc (next_temp w) \<rparr>))
                 \<lparr> files := (files w)(TempPath (next_temp w) := None) \<rparr>)) \<and>
         (layout \<in> set [''records'', ''table''] \<and>
          \<not> is_file w (SStr s) \<and>
          s \<noteq> [] \<and>
          and_then (yaml_safe_load X s) (json_dumps X) = Inr j \<and>
          read_json X j (get_or orient layout) = Inr df0 \<and>
          write_sav X df0 compress None = Inr sav0
          \<longrightarrow>
           from_yaml L X (SStr s) TNone layout compress orient w =
             (Inr (RObject (next_obj w)),
              w\<lparr> files := (files w)(TempPath (next_temp w) := None),
                 heap := (heap w)(next_obj w \<mapsto> \<lparr> content = sav0, pos = 0 \<rparr>),
                 next_temp := Suc (next_temp w), next_obj := Suc (next_obj w) \<rparr>) \<and>
           from_yaml L X (SStr s) (TStr p) layout compress orient w
             = (Inr RNone, write_file (UserPath p) sav0 w) \<and>
           from_yaml L X (SStr s) (TBytesIO a) layout compress orient w =
             (Inr (RObject a),
              (object_write a sav0 (w\<lparr> next_temp := Suc (next_temp w) \<rparr>))
                 \<lparr> files := (files w)(TempPath (next_temp w) := None) \<rparr>)) \<and>
         (read_excel X as_excel = Inr dfr \<and>
          drop_unnamed dfr = Inr df0 \<and>
          write_sav X df0 compress None = Inr sav0
          \<longrightarrow>
           from_excel L X as_excel TNone compress w =
             (Inr (RObject (next_obj w)),
              w\<lparr> files := (files w)(TempPath (next_temp w) := None),
                 heap := (heap w)(next_obj w \<mapsto> \<lparr> content = sav0, pos = 0 \<rparr>),
                 next_temp := Suc (next_temp w), next_obj := Suc (next_obj w) \<rparr>) \<and>
           from_excel L X as_excel (TStr p) compress w
             = (Inr RNone, write_file (UserPath p) sav0 w) \<and>
           from_excel L X as_excel (TBytesIO a) compress w =
             (Inr (RObject a),
              (object_write a sav0 (w\<lparr> next_temp := Suc (next_temp w) \<rparr>))
                 \<lparr> files := (files w)(TempPath (next_temp w) := None) \<rparr>))"
proof (intro conjI)
  show "(read_spss L X data opts w = (Inr (df, md), w1) \<and>
          df_to_csv X df csv = Inr csv_text
          \<longrightarrow>
           to_csv L X data TNone csv opts w = (Inr (RText csv_text), w1) \<and>
           to_csv L X data (TStr p) csv opts w
             = (Inr RNone, write_file (UserPath p) csv_text w1) \<and>
           to_csv L X data (TStringIO a) csv opts w = (Inr RNone, object_write a csv_text w1))"
  proof (intro impI)
    assume h: "read_spss L X data opts w = (Inr (df, md), w1) \<and>
          df_to_csv X df csv = Inr csv_text"
    have h1: "read_spss L X data opts w = (Inr (df, md), w1)"
      using h by blast
    have h2: "df_to_csv X df csv = Inr csv_text"
      using h by blast
    show "to_csv L X data TNone csv opts w = (Inr (RText csv_text), w1) \<and>
           to_csv L X data (TStr p) csv opts w
             = (Inr RNone, write_file (UserPath p) csv_text w1) \<and>
           to_csv L X data (TStringIO a) csv opts w = (Inr RNone, object_write a csv_text w1)"
      by (intro conjI to_csv_targets(1)[OF h1 h2] to_csv_targets(2)[OF h1 h2 assms] to_csv_targets(3)[OF h1 h2])
  qed
next
  show "(read_spss L X data opts w = (Inr (df, md), w1) \<and>
          df_to_json X df layout dp = Inr json_text \<and>
          layout \<in> set [''records'', ''table'']
          \<longrightarrow>
           to_json L X data TNone layout dp opts w = (Inr (RText json_text), w1) \<and>
           to_json L X data (TStr p) layout dp opts w
             = (Inr RNone, write_file (UserPath p) json_text w1) \<and>
           to_json L X data (TStringIO a) layout dp opts w
             = (Inr RNone, object_write a json_text w1))"
  proof (intro impI)
    assume h: "read_spss L X data opts w = (Inr (df, md), w1) \<and>
          df_to_json X df layout dp = Inr json_text \<and>
          layout \<in> set [''records'', ''table'']"
    have h1: "read_spss L X data opts w = (Inr (df, md), w1)"
      using h by blast
    have h2: "df_to_json X df layout dp = Inr json_text"
      using h by blast
    have h3: "layout \<in> set [''records'', ''table'']"
      using h by blast
    show "to_json L X data TNone layout dp opts w = (Inr (RText json_text), w1) \<and>
           to_json L X data (TStr p) layout dp opts w
             = (Inr RNone, write_file (UserPath p) json_text w1) \<and>
           to_json L X data (TStringIO a) layout dp opts w
             = (Inr RNone, object_write a json_text w1)"
      by (intro conjI to_json_targets(1)[OF h1 h2 h3] to_json_targets(2)[OF h1 h2 h3 assms] to_json_targets(3)[OF h1 h2 h3])
  qed
next
  show "(read_spss L X data opts w = (Inr (df, md), w1) \<and>
          df_to_json X df layout dp = Inr json_text \<and>
          layout \<in> set [''records'', ''table''] \<and>
          json_loads X json_text = Inr loaded \<and>
          yaml_dump X loaded = Inr yaml_text
          \<longrightarrow>
           to_yaml L X data TNone layout dp opts w = (Inr (RText yaml_text), w1))"
  proof (intro impI)
    assume h: "read_spss L X data opts w = (Inr (df, md), w1) \<and>
          df_to_json X df layout dp = Inr json_text \<and>
          layout \<in> set [''records'', ''table''] \<and>
          json_loads X json_text = Inr loaded \<and>
          yaml_dump X loaded = Inr yaml_text"
    have h1: "read_spss L X data opts w = (Inr (df, md), w1)"
      using h by blast
    have h2: "df_to_json X df layout dp = Inr json_text"
      using h by blast
    have h3: "layout \<in> set [''records'', ''table'']"
      using h by blast
    have h4: "json_loads X json_text = Inr loaded"
      using h by blast
    have h5: "yaml_dump X loaded = Inr yaml_text"
      using h by blast
    show "to_yaml L X data TNone layout dp opts w = (Inr (RText yaml_text), w1)"
      by (rule to_yaml_without_target[OF h1 h2 h3 h4 h5])
  qed
next
  show "(read_spss L X data opts w = (Inr (df, md), w1) \<and>
          df_to_excel X df xl = Inr xlsx
          \<longrightarrow>
           to_excel L X data TNone xl opts w =
             (Inr (RObject (next_obj w1)),
              w1\<lparr> heap := (heap w1)(next_obj w1 \<mapsto> \<lparr> content = xlsx, pos = length xlsx \<rparr>),
                  next_obj := Suc (next_obj w1) \<rparr>) \<and>
           to_excel L X data (TStr p) xl opts w
             = (Inr RNone, write_file (UserPath p) xlsx w1) \<and>
           to_excel L X data (TExcelWriter a) xl opts w = (Inr RNone, object_write a xlsx w1))"
  proof (intro impI)
    assume h: "read_spss L X data opts w = (Inr (df, md), w1) \<and>
          df_to_excel X df xl = Inr xlsx"
    have h1: "read_spss L X data opts w = (Inr (df, md), w1)"
      using h by blast
    have h2: "df_to_excel X df xl = Inr xlsx"
      using h by blast
    show "to_excel L X data TNone xl opts w =
             (Inr (RObject (next_obj w1)),
              w1\<lparr> heap := (heap w1)(next_obj w1 \<mapsto> \<lparr> content = xlsx, pos = length xlsx \<rparr>),
                  next_obj := Suc (next_obj w1) \<rparr>) \<and>
           to_excel L X data (TStr p) xl opts w
             = (Inr RNone, write_file (UserPath p) xlsx w1) \<and>
           to_excel L X data (TExcelWriter a) xl opts w = (Inr RNone, object_write a xlsx w1)"
      by (intro conjI to_excel_targets(1)[OF h1 h2] to_excel_targets(2)[OF h1 h2 assms] to_excel_targets(3)[OF h1 h2])
  qed
next
  show "(as_Metadata L metadata = Inr m \<and>
          (case m of None \<Rightarrow> Inr None
           | Some m' \<Rightarrow> and_then (to_pyreadstat L m') (\<lambda>n. Inr (Some (labels_of n))))
            = Inr labels \<and>
          write_sav X df' compress labels = Inr sav
          \<longrightarrow>
           from_dataframe L X df' TNone metadata compress w =
             (Inr (RObject (next_obj w)),
              w\<lparr> files := (files w)(TempPath (next_temp w) := None),
                 heap := (heap w)(next_obj w \<mapsto> \<lparr> content = sav, pos = 0 \<rparr>),
                 next_temp := Suc (next_temp w), next_obj := Suc (next_obj w) \<rparr>) \<and>
           from_dataframe L X df' (TStr p) metadata compress w
             = (Inr RNone, write_file (UserPath p) sav w) \<and>
           from_dataframe L X df' (TBytesIO a) metadata compress w =
             (Inr (RObject a),
              (object_write a sav (w\<lparr> next_temp := Suc (next_temp w) \<rparr>))
                 \<lparr> files := (files w)(TempPath (next_temp w) := None) \<rparr>))"
  proof (intro impI)
    assume h: "as_Metadata L metadata = Inr m \<and>
          (case m of None \<Rightarrow> Inr None
           | Some m' \<Rightarrow> and_then (to_pyreadstat L m') (\<lambda>n. Inr (Some (labels_of n))))
            = Inr labels \<and>
          write_sav X df' compress labels = Inr sav"
    have h1: "as_Metadata L metadata = Inr m"
      using h by blast
    have h2: "(case m of None \<Rightarrow> Inr None
           | Some m' \<Rightarrow> and_then (to_pyreadstat L m') (\<lambda>n. Inr (Some (labels_of n))))
            = Inr labels"
      using h by blast
    have h3: "write_sav X df' compress labels = Inr sav"
      using h by blast
    show "from_dataframe L X df' TNone metadata compress w =
             (Inr (RObject (next_obj w)),
              w\<lparr> files := (files w)(TempPath (next_temp w) := None),
                 heap := (heap w)(next_obj w \<mapsto> \<lparr> content = sav, pos = 0 \<rparr>),
                 next_temp := Suc (next_temp w), next_obj := Suc (next_obj w) \<rparr>) \<and>
           from_dataframe L X df' (TStr p) metadata compress w
             = (Inr RNone, write_file (UserPath p) sav w) \<and>
           from_dataframe L X df' (TBytesIO a) metadata compress w =
             (Inr (RObject a),
              (object_write a sav (w\<lparr> next_temp := Suc (next_temp w) \<rparr>))
                 \<lparr> files := (files w)(TempPath (next_temp w) := None) \<rparr>)"
      by (intro conjI from_dataframe_targets(1)[OF h1 h2 h3] from_dataframe_targets(2)[OF h1 h2 h3 assms] from_dataframe_targets(3)[OF h1 h2 h3])
  qed
next
  show "(read_csv X as_csv delimiter = Inr dfr \<and>
          drop_unnamed dfr = Inr df0 \<and>
          write_sav X df0 compress None = Inr sav0
          \<longrightarrow>
           from_csv L X as_csv TNone compress delimiter w =
             (Inr (RObject (next_obj w)),
              w\<lparr> files := (files w)(TempPath (next_temp w) := None),
                 heap := (heap w)(next_obj w \<mapsto> \<lparr> content = sav0, pos = 0 \<rparr>),
                 next_temp := Suc (next_temp w), next_obj := Suc (next_obj w) \<rparr>) \<and>
           from_csv L X as_csv (TStr p) compress delimiter w
             = (Inr RNone, write_file (UserPath p) sav0 w) \<and>
           from_csv L X as_csv (TBytesIO a) compress delimiter w =
             (Inr (RObject a),
              (object_write a sav0 (w\<lparr> next_temp := Suc (next_temp w) \<rparr>))
                 \<lparr> files := (files w)(TempPath (next_temp w) := None) \<rparr>))"
  proof (intro impI)
    assume h: "read_csv X as_csv delimiter = Inr dfr \<and>
          drop_unnamed dfr = Inr df0 \<and>
          write_sav X df0 compress None = Inr sav0"
    have h1: "read_csv X as_csv delimiter = Inr dfr"
      using h by blast
    have h2: "drop_unnamed dfr = Inr df0"
      using h by blast
    have h3: "write_sav X df0 compress None = Inr sav0"
      using h by blast
    have e: "from_csv L X as_csv t compress delimiter w = from_dataframe L X df0 t MdNone compress w" for t
      by (rule from_csv_is_from_dataframe[OF h1 h2])
    show "from_csv L X as_csv TNone compress delimiter w =
             (Inr (RObject (next_obj w)),
              w\<lparr> files := (files w)(TempPath (next_temp w) := None),
                 heap := (heap w)(next_obj w \<mapsto> \<lparr> content = sav0, pos = 0 \<rparr>),
                 next_temp := Suc (next_temp w), next_obj := Suc (next_obj w) \<rparr>) \<and>
           from_csv L X as_csv (TStr p) compress delimiter w
             = (Inr RNone, write_file (UserPath p) sav0 w) \<and>
           from_csv L X as_csv (TBytesIO a) compress delimiter w =
             (Inr (RObject a),
              (object_write a sav0 (w\<lparr> next_temp := Suc (next_temp w) \<rparr>))
                 \<lparr> files := (files w)(TempPath (next_temp w) := None) \<rparr>)"
      unfolding e
      by (intro conjI from_dataframe_without_metadata(1)[OF h3] from_dataframe_without_metadata(2)[OF h3 assms] from_dataframe_without_metadata(3)[OF h3])
  qed
next
  show "(DataFrame_from_dict X as_dict = Inr df0 \<and>
          write_sav X df0 compress None = Inr sav0
          \<longrightarrow>
           write_from_dict L X as_dict TNone compress w =
             (Inr (RObject (next_obj w)),
              w\<lparr> files := (files w)(TempPath (next_temp w) := None),
                 heap := (heap w)(next_obj w \<mapsto> \<lparr> content = sav0, pos = 0 \<rparr>),
                 next_temp := Suc (next_temp w), next_obj := Suc (next_obj w) \<rparr>) \<and>
           write_from_dict L X as_dict (TStr p) compress w
             = (Inr RNone, write_file (UserPath p) sav0 w) \<and>
           write_from_dict L X as_dict (TBytesIO a) compress w =
             (Inr (RObject a),
              (object_write a sav0 (w\<lparr> next_temp := Suc (next_temp w) \<rparr>))
                 \<lparr> files := (files w)(TempPath (next_temp w) := None) \<rparr>))"
  proof (intro impI)
    assume h: "DataFrame_from_dict X as_dict = Inr df0 \<and>
          write_sav X df0 compress None = Inr sav0"
    have h1: "DataFrame_from_dict X as_dict = Inr df0"
      using h by blast
    have h2: "write_sav X df0 compress None = Inr sav0"
      using h by blast
    have e: "write_from_dict L X as_dict t compress w = from_dataframe L X df0 t MdNone compress w" for t
      by (rule write_from_dict_is_from_dataframe[OF h1])
    show "write_from_dict L X as_dict TNone compress w =
             (Inr (RObject (next_obj w)),
              w\<lparr> files := (files w)(TempPath (next_temp w) := None),
                 heap := (heap w)(next_obj w \<mapsto> \<lparr> content = sav0, pos = 0 \<rparr>),
                 next_temp := Suc (next_temp w), next_obj := Suc (next_obj w) \<rparr>) \<and>
           write_from_dict L X as_dict (TStr p) compress w
             = (Inr RNone, write_file (UserPath p) sav0 w) \<and>
           write_from_dict L X as_dict (TBytesIO a) compress w =
             (Inr (RObject a),
              (object_write a sav0 (w\<lparr> next_temp := Suc (next_temp w) \<rparr>))
                 \<lparr> files := (files w)(TempPath (next_temp w) := None) \<rparr>)"
      unfolding e
      by (intro conjI from_dataframe_without_metadata(1)[OF h2] from_dataframe_without_metadata(2)[OF h2 assms] from_dataframe_without_metadata(3)[OF h2])
  qed
next
  show "(layout \<in> set [''records'', ''table''] \<and>
          read_json X as_json (get_or orient layout) = Inr df0 \<and>
          write_sav X df0 compress None = Inr sav0
          \<longrightarrow>
           from_json L X as_json TNone layout compress orient w =
             (Inr (RObject (next_obj w)),
              w\<lparr> files := (files w)(TempPath (next_temp w) := None),
                 heap := (heap w)(next_obj w \<mapsto> \<lparr> content = sav0, pos = 0 \<rparr>),
                 next_temp := Suc (next_temp w), next_obj := Suc (next_obj w) \<rparr>) \<and>
           from_json L X as_json (TStr p) layout compress orient w
             = (Inr RNone, write_file (UserPath p) sav0 w) \<and>
           from_json L X as_json (TBytesIO a) layout compress orient w =
             (Inr (RObject a),
              (object_write a sav0 (w\<lparr> next_temp := Suc (next_temp w) \<rparr>))
                 \<lparr> files := (files w)(TempPath (next_temp w) := None) \<rparr>))"
  proof (intro impI)
    assume h: "layout \<in> set [''records'', ''table''] \<and>
          read_json X as_json (get_or orient layout) = Inr df0 \<and>
          write_sav X df0 compress None = Inr sav0"
    have h1: "layout \<in> set [''records'', ''table'']"
      using h by blast
    have h2: "read_json X as_json (get_or orient layout) = Inr df0"
      using h by blast
    have h3: "write_sav X df0 compress None = Inr sav0"
      using h by blast
    have e: "from_json L X as_json t layout compress orient w = from_dataframe L X df0 t MdNone compress w" for t
      by (rule from_json_is_from_dataframe[OF h1 h2])
    show "from_json L X as_json TNone layout compress orient w =
             (Inr (RObject (next_obj w)),
              w\<lparr> files := (files w)(TempPath (next_temp w) := None),
                 heap := (heap w)(next_obj w \<mapsto> \<lparr> content = sav0, pos = 0 \<rparr>),
                 next_temp := Suc (next_temp w), next_obj := Suc (next_obj w) \<rparr>) \<and>
           from_json L X as_json (TStr p) layout compress orient w
             = (Inr RNone, write_file (UserPath p) sav0 w) \<and>
           from_json L X as_json (TBytesIO a) layout compress orient w =
             (Inr (RObject a),
              (object_write a sav0 (w\<lparr> next_temp := Suc (next_temp w) \<rparr>))
                 \<lparr> files := (files w)(TempPath (next_temp w) := None) \<rparr>)"
      unfolding e
      by (intro conjI from_dataframe_without_metadata(1)[OF h3] from_dataframe_without_metadata(2)[OF h3 assms] from_dataframe_without_metadata(3)[OF h3])
  qed
next
  show "(layout \<in> set [''records'', ''table''] \<and>
          \<not> is_file w (SStr s) \<and>
          s \<noteq> [] \<and>
          and_then (yaml_safe_load X s) (json_dumps X) = Inr j \<and>
          read_json X j (get_or orient layout) = Inr df0 \<and>
          write_sav X df0 compress None = Inr sav0
          \<longrightarrow>
           from_yaml L X (SStr s) TNone layout compress orient w =
             (Inr (RObject (next_obj w)),
              w\<lparr> files := (files w)(TempPath (next_temp w) := None),
                 heap := (heap w)(next_obj w \<mapsto> \<lparr> content = sav0, pos = 0 \<rparr>),
                 next_temp := Suc (next_temp w), next_obj := Suc (next_obj w) \<rparr>) \<and>
           from_yaml L X (SStr s) (TStr p) layout compress orient w
             = (Inr RNone, write_file (UserPath p) sav0 w) \<and>
           from_yaml L X (SStr s) (TBytesIO a) layout compress orient w =
             (Inr (RObject a),
              (object_write a sav0 (w\<lparr> next_temp := Suc (next_temp w) \<rparr>))
                 \<lparr> files := (files w)(TempPath (next_temp w) := None) \<rparr>))"
  proof (intro impI)
    assume h: "layout \<in> set [''records'', ''table''] \<and>
          \<not> is_file w (SStr s) \<and>
          s \<noteq> [] \<and>
          and_then (yaml_safe_load X s) (json_dumps X) = Inr j \<and>
          read_json X j (get_or orient layout) = Inr df0 \<and>
          write_sav X df0 compress None = Inr sav0"
    have h1: "layout \<in> set [''records'', ''table'']"
      using h by blast
    have h2: "\<not> is_file w (SStr s)"
      using h by blast
    have h3: "s \<noteq> []"
      using h by blast
    have h4: "and_then (yaml_safe_load X s) (json_dumps X) = Inr j"
      using h by blast
    have h5: "read_json X j (get_or orient layout) = Inr df0"
      using h by blast
    have h6: "write_sav X df0 compress None = Inr sav0"
      using h by blast
    have e: "from_yaml L X (SStr s) t layout compress orient w = from_dataframe L X df0 t MdNone compress w" for t
      by (rule from_yaml_is_from_dataframe[OF h1 h2 h3 h4 h5])
    show "from_yaml L X (SStr s) TNone layout compress orient w =
             (Inr (RObject (next_obj w)),
              w\<lparr> files := (files w)(TempPath (next_temp w) := None),
                 heap := (heap w)(next_obj w \<mapsto> \<lparr> content = sav0, pos = 0 \<rparr>),
                 next_temp := Suc (next_temp w), next_obj := Suc (next_obj w) \<rparr>) \<and>
           from_yaml L X (SStr s) (TStr p) layout compress orient w
             = (Inr RNone, write_file (UserPath p) sav0 w) \<and>
           from_yaml L X (SStr s) (TBytesIO a) layout compress orient w =
             (Inr (RObject a),
              (object_write a sav0 (w\<lparr> next_temp := Suc (next_temp w) \<rparr>))
                 \<lparr> files := (files w)(TempPath (next_temp w) := None) \<rparr>)"
      unfolding e
      by (intro conjI from_dataframe_without_metadata(1)[OF h6] from_dataframe_without_metadata(2)[OF h6 assms] from_dataframe_without_metadata(3)[OF h6])
  qed
next
  show "(read_excel X as_excel = Inr dfr \<and>
          drop_unnamed dfr = Inr df0 \<and>
          write_sav X df0 compress None = Inr sav0
          \<longrightarrow>
           from_excel L X as_excel TNone compress w =
             (Inr (RObject (next_obj w)),
              w\<lparr> files := (files w)(TempPath (next_temp w) := None),
                 heap := (heap w)(next_obj w \<mapsto> \<lparr> content = sav0, pos = 0 \<rparr>),
                 next_temp := Suc (next_temp w), next_obj := Suc (next_obj w) \<rparr>) \<and>
           from_excel L X as_excel (TStr p) compress w
             = (Inr RNone, write_file (UserPath p) sav0 w) \<and>
           from_excel L X as_excel (TBytesIO a) compress w =
             (Inr (RObject a),
              (object_write a sav0 (w\<lparr> next_temp := Suc (next_temp w) \<rparr>))
                 \<lparr> files := (files w)(TempPath (next_temp w) := None) \<rparr>))"
  proof (intro impI)
    assume h: "read_excel X as_excel = Inr dfr \<and>
          drop_unnamed dfr = Inr df0 \<and>
          write_sav X df0 compress None = Inr sav0"
    have h1: "read_excel X as_excel = Inr dfr"
      using h by blast
    have h2: "drop_unnamed dfr = Inr df0"
      using h by blast
    have h3: "write_sav X df0 compress None = Inr sav0"
      using h by blast
    have e: "from_excel L X as_excel t compress w = from_dataframe L X df0 t MdNone compress w" for t
      by (rule from_excel_is_from_dataframe[OF h1 h2])
    show "from_excel L X as_excel TNone compress w =
             (Inr (RObject (next_obj w)),
              w\<lparr> files := (files w)(TempPath (next_temp w) := None),
                 heap := (heap w)(next_obj w \<mapsto> \<lparr> content = sav0, pos = 0 \<rparr>),
                 next_temp := Suc (next_temp w), next_obj := Suc (next_obj w) \<rparr>) \<and>
           from_excel L X as_excel (TStr p) compress w
             = (Inr RNone, write_file (UserPath p) sav0 w) \<and>
           from_excel L X as_excel (TBytesIO a) compress w =
             (Inr (RObject a),
              (object_write a sav0 (w\<lparr> next_temp := Suc (next_temp w) \<rparr>))
                 \<lparr> files := (files w)(TempPath (next_temp w) := None) \<rparr>)"
      unfolding e
      by (intro conjI from_dataframe_without_metadata(1)[OF h3] from_dataframe_without_metadata(2)[OF h3 assms] from_dataframe_without_metadata(3)[OF h3])
  qed
qed

text \<open>
  The theorem with the sample codec, one line for each function: \<^verbatim>\<open>to_csv\<close> and
  \<^verbatim>\<open>to_yaml\<close> without a target return the text; \<^verbatim>\<open>to_json\<close>, \<^verbatim>\<open>to_excel\<close> and
  \<^verbatim>\<open>from_dataframe\<close> (with a \<^verbatim>\<open>Metadata\<close>) given the path \<^verbatim>\<open>out\<close> return \<^verbatim>\<open>None\<close> and
  leave the result in that file; \<^verbatim>\<open>from_csv\<close> without a target returns a new buffer
  that holds the bytes; \<^verbatim>\<open>from_dict\<close>, \<^verbatim>\<open>from_json\<close> and \<^verbatim>\<open>from_excel\<close> given the path
  return \<^verbatim>\<open>None\<close>; \<^verbatim>\<open>from_yaml\<close> given the buffer at address 0 returns that buffer.
\<close>

theorem target_contract_witness:
  "''out'' \<noteq> [] \<and>
   fst (to_csv sample_lib sample_extern (SBytes ''SAV'') TNone default_csv default_opts
          empty_world) = Inr (RText ''age|30|41'') \<and>
   fst (to_json sample_lib sample_extern (SBytes ''SAV'') (TStr ''out'') ''records'' 10
          default_opts empty_world) = Inr RNone \<and>
   files (snd (to_json sample_lib sample_extern (SBytes ''SAV'') (TStr ''out'') ''records'' 10
          default_opts empty_world)) (UserPath ''out'') = Some ''[30, 41]'' \<and>
   fst (to_yaml sample_lib sample_extern (SBytes ''SAV'') TNone ''records'' 10
          default_opts empty_world) = Inr (RText ''- 30'') \<and>
   fst (to_excel sample_lib sample_extern (SBytes ''SAV'') (TStr ''out'') default_excel
          default_opts empty_world) = Inr RNone \<and>
   files (snd (to_excel sample_lib sample_extern (SBytes ''SAV'') (TStr ''out'') default_excel
          default_opts empty_world)) (UserPath ''out'') = Some ''XLSX'' \<and>
   fst (from_dataframe sample_lib sample_extern df_age (TStr ''out'') (MdMetadata m_two_lines)
          False empty_world) = Inr RNone \<and>
   files (snd (from_dataframe sample_lib sample_extern df_age (TStr ''out'')
          (MdMetadata m_two_lines) False empty_world)) (UserPath ''out'') = Some ''SAV'' \<and>
   fst (from_csv sample_lib sample_extern (SStr ''age|30|41'') TNone False ''|'' empty_world)
     = Inr (RObject 0) \<and>
   heap (snd (from_csv sample_lib sample_extern (SStr ''age|30|41'') TNone False ''|''
          empty_world)) 0 = Some \<lparr> content = ''SAV'', pos = 0 \<rparr> \<and>
   fst (write_from_dict sample_lib sample_extern (PDict []) (TStr ''out'') False empty_world)
     = Inr RNone \<and>
   fst (from_json sample_lib sample_extern ''[30, 41]'' (TStr ''out'') ''records'' False None
          empty_world) = Inr RNone \<and>
   fst (from_yaml sample_lib sample_extern (SStr ''- 30'') (TBytesIO 0) ''records'' False None
          world_with_buffer) = Inr (RObject 0) \<and>
   fst (from_excel sample_lib sample_extern (SBytes ''XLSX'') (TStr ''out'') False empty_world)
     = Inr RNone"
proof -
  define w1 where "w1 = empty_world\<lparr> files := (files empty_world)(TempPath (next_temp empty_world) := None),
                              next_temp := Suc (next_temp empty_world),
                              reads := Suc (reads empty_world) \<rparr>"
  define md where "md = Metadata_init\<lparr>column_metadata := Some [(PStr ''age'', c_age)],
                          rows := PInt 10, file_encoding := PStr ''UTF-8''\<rparr>"
  have p: "''out'' \<noteq> []" by simp
  have rd: "read_spss sample_lib sample_extern (SBytes ''SAV'') default_opts empty_world
              = (Inr (df_age, md), w1)"
    unfolding w1_def md_def by (rule read_sample)
  have csv: "df_to_csv sample_extern df_age default_csv = Inr ''age|30|41''"
    by (simp add: sample_extern_def)
  have js: "df_to_json sample_extern df_age ''records'' 10 = Inr ''[30, 41]''"
    by (simp add: sample_extern_def)
  have lay: "''records'' \<in> set [''records'', ''table'']" by simp
  have jl: "json_loads sample_extern ''[30, 41]'' = Inr (PList [PInt 30, PInt 41])"
    by (simp add: sample_extern_def)
  have yd: "yaml_dump sample_extern (PList [PInt 30, PInt 41]) = Inr ''- 30''"
    by (simp add: sample_extern_def)
  have xl: "df_to_excel sample_extern df_age default_excel = Inr ''XLSX''"
    by (simp add: sample_extern_def)
  have am: "as_Metadata sample_lib (MdMetadata m_two_lines) = Inr (Some m_two_lines)"
    by (simp add: as_Metadata_def)
  have "\<exists>r. to_pyreadstat sample_lib m_two_lines = Inr r"
    by (simp add: m_two_lines_def newline_def c_age_def native_defs)
  then obtain r where tp: "to_pyreadstat sample_lib m_two_lines = Inr r" by blast
  have lb: "(case Some m_two_lines of None \<Rightarrow> Inr None
             | Some m' \<Rightarrow> and_then (to_pyreadstat sample_lib m')
                            (\<lambda>n. Inr (Some (labels_of n))))
            = Inr (Some (labels_of r))"
    by (simp add: tp)
  have ws: "write_sav sample_extern df_age False (Some (labels_of r)) = Inr ''SAV''"
    by (simp add: sample_extern_def)
  have ws0: "write_sav sample_extern df_age False None = Inr ''SAV''"
    by (simp add: sample_extern_def)
  have rc: "read_csv sample_extern (SStr ''age|30|41'') ''|'' = Inr df_age"
    by (simp add: sample_extern_def)
  have du: "drop_unnamed df_age = Inr df_age"
    by (simp add: drop_unnamed_def df_age_def dict_has_def py_eq_def)
  have fd: "DataFrame_from_dict sample_extern (PDict []) = Inr df_age"
    by (simp add: sample_extern_def)
  have rj: "read_json sample_extern ''[30, 41]'' (get_or None ''records'') = Inr df_age"
    by (simp add: sample_extern_def)
  have nf: "\<not> is_file world_with_buffer (SStr ''- 30'')"
    by (simp add: is_file_def world_with_buffer_def empty_world_def)
  have ne: "''- 30'' \<noteq> []" by simp
  have yl: "and_then (yaml_safe_load sample_extern ''- 30'') (json_dumps sample_extern)
              = Inr ''[30, 41]''"
    by (simp add: sample_extern_def)
  have re: "read_excel sample_extern (SBytes ''XLSX'') = Inr df_age"
    by (simp add: sample_extern_def)
  note g1 = target_contract[OF p, THEN conjunct1, THEN mp, OF conjI[OF rd csv]]
  note g2 = target_contract[OF p, THEN conjunct2, THEN conjunct1, THEN mp, OF conjI[OF rd conjI[OF js lay]]]
  note g3 = target_contract[OF p, THEN conjunct2, THEN conjunct2, THEN conjunct1, THEN mp, OF conjI[OF rd conjI[OF js conjI[OF lay conjI[OF jl yd]]]]]
  note g4 = target_contract[OF p, THEN conjunct2, THEN conjunct2, THEN conjunct2, THEN conjunct1, THEN mp, OF conjI[OF rd xl]]
  note g5 = target_contract[OF p, THEN conjunct2, THEN conjunct2, THEN conjunct2, THEN conjunct2, THEN conjunct1, THEN mp, OF conjI[OF am conjI[OF lb ws]]]
  note g6 = target_contract[OF p, THEN conjunct2, THEN conjunct2, THEN conjunct2, THEN conjunct2, THEN conjunct2, THEN conjunct1, THEN mp, OF conjI[OF rc conjI[OF du ws0]]]
  note g7 = target_contract[OF p, THEN conjunct2, THEN conjunct2, THEN conjunct2, THEN conjunct2, THEN conjunct2, THEN conjunct2, THEN conjunct1, THEN mp, OF conjI[OF fd ws0]]
  note g8 = target_contract[OF p, THEN conjunct2, THEN conjunct2, THEN conjunct2, THEN conjunct2, THEN conjunct2, THEN conjunct2, THEN conjunct2, THEN conjunct1, THEN mp, OF conjI[OF lay conjI[OF rj ws0]]]
  note g9 = target_contract[OF p, THEN conjunct2, THEN conjunct2, THEN conjunct2, THEN conjunct2, THEN conjunct2, THEN conjunct2, THEN conjunct2, THEN conjunct2, THEN conjunct1, THEN mp, OF conjI[OF lay conjI[OF nf conjI[OF ne conjI[OF yl conjI[OF rj ws0]]]]]]
  note g10 = target_contract[OF p, THEN conjunct2, THEN conjunct2, THEN conjunct2, THEN conjunct2, THEN conjunct2, THEN conjunct2, THEN conjunct2, THEN conjunct2, THEN conjunct2, THEN mp, OF conjI[OF re conjI[OF du ws0]]]
  have a: "to_csv sample_lib sample_extern (SBytes ''SAV'') TNone default_csv default_opts
          empty_world = (Inr (RText ''age|30|41''), w1)"
    by (rule g1[THEN conjunct1])
  have b: "to_json sample_lib sample_extern (SBytes ''SAV'') (TStr ''out'') ''records'' 10
          default_opts empty_world = (Inr RNone, write_file (UserPath ''out'') ''[30, 41]'' w1)"
    by (rule g2[THEN conjunct2, THEN conjunct1])
  have c: "to_yaml sample_lib sample_extern (SBytes ''SAV'') TNone ''records'' 10
          default_opts empty_world = (Inr (RText ''- 30''), w1)"
    by (rule g3)
  have d: "to_excel sample_lib sample_extern (SBytes ''SAV'') (TStr ''out'') default_excel
          default_opts empty_world = (Inr RNone, write_file (UserPath ''out'') ''XLSX'' w1)"
    by (rule g4[THEN conjunct2, THEN conjunct1])
  have e: "from_dataframe sample_lib sample_extern df_age (TStr ''out'') (MdMetadata m_two_lines)
          False empty_world = (Inr RNone, write_file (UserPath ''out'') ''SAV'' empty_world)"
    by (rule g5[THEN conjunct2, THEN conjunct1])
  have f: "from_csv sample_lib sample_extern (SStr ''age|30|41'') TNone False ''|'' empty_world =
           (Inr (RObject (next_obj empty_world)),
            empty_world\<lparr> files := (files empty_world)(TempPath (next_temp empty_world) := None),
               heap := (heap empty_world)(next_obj empty_world \<mapsto> \<lparr> content = ''SAV'', pos = 0 \<rparr>),
               next_temp := Suc (next_temp empty_world),
               next_obj := Suc (next_obj empty_world) \<rparr>)"
    by (rule g6[THEN conjunct1])
  have g: "from_yaml sample_lib sample_extern (SStr ''- 30'') (TBytesIO 0) ''records'' False None
          world_with_buffer =
           (Inr (RObject 0),
            (object_write 0 ''SAV''
               (world_with_buffer\<lparr> next_temp := Suc (next_temp world_with_buffer) \<rparr>))
               \<lparr> files := (files world_with_buffer)
                             (TempPath (next_temp world_with_buffer) := None) \<rparr>)"
    by (rule g9[THEN conjunct2, THEN conjunct2])
  have h: "write_from_dict sample_lib sample_extern (PDict []) (TStr ''out'') False empty_world
             = (Inr RNone, write_file (UserPath ''out'') ''SAV'' empty_world)"
    by (rule g7[THEN conjunct2, THEN conjunct1])
  have i: "from_json sample_lib sample_extern ''[30, 41]'' (TStr ''out'') ''records'' False None
          empty_world = (Inr RNone, write_file (UserPath ''out'') ''SAV'' empty_world)"
    by (rule g8[THEN conjunct2, THEN conjunct1])
  have j: "from_excel sample_lib sample_extern (SBytes ''XLSX'') (TStr ''out'') False empty_world
             = (Inr RNone, write_file (UserPath ''out'') ''SAV'' empty_world)"
    by (rule g10[THEN conjunct2, THEN conjunct1])
  have f1: "fst (from_csv sample_lib sample_extern (SStr ''age|30|41'') TNone False ''|''
              empty_world) = Inr (RObject 0)"
    by (subst f) (simp add: empty_world_def)
  have f2: "heap (snd (from_csv sample_lib sample_extern (SStr ''age|30|41'') TNone False ''|''
          empty_world)) 0 = Some \<lparr> content = ''SAV'', pos = 0 \<rparr>"
    by (subst f) (simp add: empty_world_def)
  have g': "fst (from_yaml sample_lib sample_extern (SStr ''- 30'') (TBytesIO 0) ''records''
          False None world_with_buffer) = Inr (RObject 0)"
    by (simp only: g fst_conv)
  show ?thesis
    using p f1 f2 g' by (simp add: a b c d e h i j write_file_def)
qed

text \<open>
  C6 as stated fails for a \<^verbatim>\<open>BytesIO\<close> target. \<^verbatim>\<open>from_dataframe\<close> writes into the buffer
  and returns it, not \<^verbatim>\<open>None\<close>, as its docstring says. \<^verbatim>\<open>to_excel\<close> returns a new
  buffer and leaves the caller's buffer, at address 0, empty.
\<close>

theorem from_dataframe_returns_the_buffer:
  "fst (from_dataframe sample_lib sample_extern df_age (TBytesIO 0) MdNone False
          world_with_buffer) = Inr (RObject 0) \<and>
   RObject 0 \<noteq> RNone \<and>
   heap (snd (from_dataframe sample_lib sample_extern df_age (TBytesIO 0) MdNone False
          world_with_buffer)) 0 = Some \<lparr> content = ''SAV'', pos = 3 \<rparr> \<and>
   fst (to_excel sample_lib sample_extern (SBytes ''SAV'') (TBytesIO 0) default_excel
          default_opts world_with_buffer) = Inr (RObject 1) \<and>
   heap (snd (to_excel sample_lib sample_extern (SBytes ''SAV'') (TBytesIO 0) default_excel
          default_opts world_with_buffer)) 0 = Some \<lparr> content = [], pos = 0 \<rparr>"
proof -
  have s: "write_sav sample_extern df_age False None = Inr ''SAV''"
    by (simp add: sample_extern_def)
  have a: "from_dataframe sample_lib sample_extern df_age (TBytesIO 0) MdNone False
             world_with_buffer =
           (Inr (RObject 0),
            (object_write 0 ''SAV''
               (world_with_buffer\<lparr> next_temp := Suc (next_temp world_with_buffer) \<rparr>))
               \<lparr> files := (files world_with_buffer)
                             (TempPath (next_temp world_with_buffer) := None) \<rparr>)"
    by (rule from_dataframe_without_metadata(3)[OF s])
  have b: "heap (snd (from_dataframe sample_lib sample_extern df_age (TBytesIO 0) MdNone False
          world_with_buffer)) 0 = Some \<lparr> content = ''SAV'', pos = 3 \<rparr>"
    by (subst a) (simp add: object_write_def buffer_write_def world_with_buffer_def
        empty_world_def)
  have a': "fst (from_dataframe sample_lib sample_extern df_age (TBytesIO 0) MdNone False
          world_with_buffer) = Inr (RObject 0)"
    by (simp only: a fst_conv)
  have c: "next_obj world_with_buffer = 1" "heap world_with_buffer 0 = Some \<lparr> content = [], pos = 0 \<rparr>"
    by (simp_all add: world_with_buffer_def empty_world_def)
  have d: "fst (to_excel sample_lib sample_extern (SBytes ''SAV'') (TBytesIO 0) default_excel
          default_opts world_with_buffer) = Inr (RObject 1)"
    using to_excel_sample_buffer[of 0 world_with_buffer] c(1) by simp
  have e: "heap (snd (to_excel sample_lib sample_extern (SBytes ''SAV'') (TBytesIO 0)
          default_excel default_opts world_with_buffer)) 0 = Some \<lparr> content = [], pos = 0 \<rparr>"
    using to_excel_sample_buffer[of 0 world_with_buffer] c by simp
  show ?thesis using a' b d e by simp
qed

end
